theory Spec2Isabelle
  imports Main
begin

section \<open>tcx2csv: the data model\<close>

text \<open>
  The program reads one TCX document with \<^verbatim>\<open>xml.etree.ElementTree\<close> and writes a CSV
  file. An element of the parsed tree is its qualified tag (\<^verbatim>\<open>{uri}local\<close>, or \<^verbatim>\<open>local\<close>
  when it has no namespace), its text (\<^verbatim>\<open>None\<close> when there is none) and its children in
  document order. Attributes and tails are never read by the program and are left out.
\<close>

datatype element = Element (elem_tag: string) (elem_text: "string option")
  (elem_children: "element list")

text \<open>
  The field map \<^verbatim>\<open>attributes\<close> is a dict whose values are column names or dicts again.
  Python dicts keep insertion order, and both traversals rely on it, so a dict is an
  association list here.
\<close>

datatype attr_value = Leaf string | Nested "(string \<times> attr_value) list"

type_synonym AttributeNestingLevel = "(string \<times> attr_value) list"

definition attributes :: AttributeNestingLevel where
  "attributes =
    [(''Time'', Leaf ''Time''),
     (''Position'', Nested
        [(''LatitudeDegrees'', Leaf ''LatitudeDegrees''),
         (''LongitudeDegrees'', Leaf ''LongitudeDegrees'')]),
     (''AltitudeMeters'', Leaf ''AltitudeMeters''),
     (''HeartRateBpm'', Nested [(''Value'', Leaf ''HRBpm'')]),
     (''Cadence'', Leaf ''Cadence''),
     (''Extensions'', Nested
        [(''TPX'', Nested
           [(''Speed'', Leaf ''Speed''),
            (''Watts'', Leaf ''Watts''),
            (''Grade'', Leaf ''Grade'')])])]"

text \<open>
  Exceptions are values. \<^verbatim>\<open>ParseError\<close> and \<^verbatim>\<open>OSError\<close> come from \<^verbatim>\<open>et.parse\<close> and
  \<^verbatim>\<open>open\<close>, \<^verbatim>\<open>UnicodeEncodeError\<close> and \<^verbatim>\<open>OSError\<close> from \<^verbatim>\<open>fout.write\<close> and from
  \<^verbatim>\<open>print\<close>, and \<^verbatim>\<open>AttributeError\<close> is what Python raises when a method is called on
  \<^verbatim>\<open>None\<close>. All four are subclasses of \<^verbatim>\<open>Exception\<close>. Each carries the text that
  \<^verbatim>\<open>str(e)\<close> gives.
\<close>

datatype exn = ParseError string | OSError string | UnicodeEncodeError string
  | AttributeError string

fun exn_str :: "exn \<Rightarrow> string" where
  "exn_str (ParseError m) = m"
| "exn_str (OSError m) = m"
| "exn_str (UnicodeEncodeError m) = m"
| "exn_str (AttributeError m) = m"

section \<open>The library calls the program makes\<close>

subsection \<open>Strings\<close>

text \<open>
  \<^verbatim>\<open>str.strip()\<close> removes leading and trailing whitespace. Among the characters of
  \<^typ>\<open>char\<close> Python counts as whitespace the codes 9 to 13, 28 to 32, 133 and 160.
\<close>

definition py_isspace :: "char \<Rightarrow> bool" where
  "py_isspace c \<longleftrightarrow>
     (let n = of_char c :: nat
      in (9 \<le> n \<and> n \<le> 13) \<or> (28 \<le> n \<and> n \<le> 32) \<or> n = 133 \<or> n = 160)"

definition strip :: "string \<Rightarrow> string" where
  "strip s = rev (dropWhile py_isspace (rev (dropWhile py_isspace s)))"

text \<open>\<^verbatim>\<open>sep.join(xs)\<close>.\<close>

fun join :: "string \<Rightarrow> string list \<Rightarrow> string" where
  "join sep [] = []"
| "join sep [x] = x"
| "join sep (x # y # ys) = x @ sep @ join sep (y # ys)"

text \<open>
  \<^verbatim>\<open>s.split(c)\<close> for a one-character separator: the fields a reader of the CSV line sees.
\<close>

fun split :: "char \<Rightarrow> string \<Rightarrow> string list" where
  "split c [] = [[]]"
| "split c (x # xs) =
     (if x = c then [] # split c xs
      else (case split c xs of f # fs \<Rightarrow> (x # f) # fs | [] \<Rightarrow> [[x]]))"

subsection \<open>The namespace of the root tag\<close>

text \<open>
  \<^verbatim>\<open>re.match(r'^({.*})', tag)\<close>: the tag must start with an opening brace; the greedy
  \<^verbatim>\<open>.*\<close> runs over the characters up to the first line feed (the dot matches no line
  feed) and backs up to the last closing brace there. The group is the prefix of the tag
  that ends at this brace; without such a brace there is no match.
\<close>

definition re_match_namespace :: "string \<Rightarrow> string option" where
  "re_match_namespace tag =
     (case tag of
        [] \<Rightarrow> None
      | c # rest \<Rightarrow>
          if c \<noteq> CHR ''{'' then None
          else (let line = takeWhile (\<lambda>x. x \<noteq> CHR 0x0A) rest
                in if CHR ''}'' \<in> set line
                   then Some (c # rev (dropWhile (\<lambda>x. x \<noteq> CHR ''}'') (rev line)))
                   else None))"

subsection \<open>ElementTree\<close>

text \<open>
  \<^verbatim>\<open>Element.find(path)\<close> for a path that is one tag: the first child, in document order,
  that the tag selects. \<^verbatim>\<open>{*}name\<close> selects a child whose tag is \<^verbatim>\<open>name\<close> or ends with
  \<^verbatim>\<open>}name\<close> (any namespace, or none); \<^verbatim>\<open>{}name\<close> stands for \<^verbatim>\<open>name\<close>; any other tag
  selects the children whose tag is equal to it. The paths of the program are a namespace
  in braces, or nothing, followed by a fixed name; ElementTree reads such a path as one
  tag unless the namespace itself holds a closing brace followed by path syntax, a case
  that is not modelled.
\<close>

definition tag_selects :: "string \<Rightarrow> string \<Rightarrow> bool" where
  "tag_selects path el_tag \<longleftrightarrow>
     (if take 3 path = ''{*}''
      then (let suffix = drop 2 path
            in el_tag = drop 3 path \<or> drop (length el_tag - length suffix) el_tag = suffix)
      else if take 2 path = ''{}'' then el_tag = drop 2 path
      else el_tag = path)"

definition find_py :: "element \<Rightarrow> string \<Rightarrow> element option" where
  "find_py e path = List.find (\<lambda>c. tag_selects path (elem_tag c)) (elem_children e)"

text \<open>
  The method call \<^verbatim>\<open>element.find(path)\<close> on a value that may be \<^verbatim>\<open>None\<close>: on \<^verbatim>\<open>None\<close>
  Python raises \<^verbatim>\<open>AttributeError\<close>.
\<close>

fun Element_find :: "element option \<Rightarrow> string \<Rightarrow> exn + element option" where
  "Element_find None path = Inl (AttributeError ''find'')"
| "Element_find (Some e) path = Inr (find_py e path)"

text \<open>
  \<^verbatim>\<open>Element.iter(tag)\<close>: the element itself when its tag is equal to \<^verbatim>\<open>tag\<close> (every
  element when \<^verbatim>\<open>tag\<close> is \<^verbatim>\<open>*\<close>), then what \<^verbatim>\<open>iter\<close> yields for each child in turn.
\<close>

fun iter_py :: "string \<Rightarrow> element \<Rightarrow> element list" where
  "iter_py t (Element tg tx cs) =
     (if t = ''*'' \<or> tg = t then [Element tg tx cs] else []) @ concat (map (iter_py t) cs)"

section \<open>The program\<close>

subsection \<open>Extraction of one trackpoint\<close>

text \<open>
  \<^verbatim>\<open>get_element_text(element, tag)\<close>: the empty string for \<^verbatim>\<open>None\<close>; otherwise the
  stripped text of the child found, and the empty string when there is no such child or
  its text is \<^verbatim>\<open>None\<close> or empty.
\<close>

definition get_element_text :: "element option \<Rightarrow> string \<Rightarrow> exn + string" where
  "get_element_text element tag =
     (if element = None then Inr ''''
      else (case Element_find element tag of
              Inl x \<Rightarrow> Inl x
            | Inr child \<Rightarrow>
                (case child of
                   None \<Rightarrow> Inr ''''
                 | Some c \<Rightarrow>
                     (case elem_text c of
                        None \<Rightarrow> Inr ''''
                      | Some t \<Rightarrow> if t \<noteq> [] then Inr (strip t) else Inr ''''))))"

text \<open>The constant \<^verbatim>\<open>namespace = "{*}"\<close> of \<^verbatim>\<open>extract_trackpoint_data\<close>.\<close>

definition namespace_any :: string where
  "namespace_any = ''{*}''"

text \<open>
  \<^verbatim>\<open>extract_attribute(element, attr_dict)\<close>. The loop over the items of the dict is the
  recursion of \<open>extract_items\<close> on the list, with the list \<^verbatim>\<open>results\<close> passed along; a nested
  dict is a recursive call with the child found (or \<^verbatim>\<open>None\<close>) and a fresh \<^verbatim>\<open>results\<close>.
\<close>

function extract_items ::
  "element option \<Rightarrow> AttributeNestingLevel \<Rightarrow> string list \<Rightarrow> exn + string list" where
  "extract_items element [] results = Inr results"
| "extract_items element ((key, Nested d) # rest) results =
     (case (if element \<noteq> None then Element_find element (namespace_any @ key)
            else Inr None) of
        Inl x \<Rightarrow> Inl x
      | Inr child \<Rightarrow>
          (case extract_items child d [] of
             Inl x \<Rightarrow> Inl x
           | Inr sub \<Rightarrow> extract_items element rest (results @ sub)))"
| "extract_items element ((key, Leaf v) # rest) results =
     (case get_element_text element (namespace_any @ key) of
        Inl x \<Rightarrow> Inl x
      | Inr t \<Rightarrow> extract_items element rest (results @ [t]))"
  by pat_completeness auto
termination
  by (relation "measure (\<lambda>(e, d, r). size_list (size_prod (\<lambda>_. 0) size) d)") auto

definition extract_attribute ::
  "element option \<Rightarrow> AttributeNestingLevel \<Rightarrow> exn + string list" where
  "extract_attribute element attr_dict = extract_items element attr_dict []"

text \<open>
  \<^verbatim>\<open>extract_trackpoint_data(trackpoint, attrs=None)\<close>; \<^verbatim>\<open>main\<close> calls it with the default.
\<close>

definition extract_trackpoint_data ::
  "element option \<Rightarrow> AttributeNestingLevel option \<Rightarrow> exn + string list" where
  "extract_trackpoint_data trackpoint attrs =
     extract_attribute trackpoint (case attrs of None \<Rightarrow> attributes | Some a \<Rightarrow> a)"

subsection \<open>The header\<close>

text \<open>
  \<^verbatim>\<open>extract_headers(attr_dict)\<close> appends to the list \<^verbatim>\<open>headers\<close> of \<^verbatim>\<open>main\<close>; the list is
  passed in and returned.
\<close>

function extract_headers :: "AttributeNestingLevel \<Rightarrow> string list \<Rightarrow> string list" where
  "extract_headers [] headers = headers"
| "extract_headers ((key, Nested d) # rest) headers =
     extract_headers rest (extract_headers d headers)"
| "extract_headers ((key, Leaf v) # rest) headers = extract_headers rest (headers @ [v])"
  by pat_completeness auto
termination
  by (relation "measure (\<lambda>(d, h). size_list (size_prod (\<lambda>_. 0) size) d)") auto

subsection \<open>The outside world\<close>

text \<open>
  What \<^verbatim>\<open>main\<close> touches: the files (a map from paths to contents) and the lines printed
  on standard output. What it cannot decide itself is given by the environment: the result
  of \<^verbatim>\<open>et.parse(path).getroot()\<close> (a tree, or the exception raised for an unreadable
  or malformed file), whether \<^verbatim>\<open>open(path, 'w')\<close> raises, whether writing a given
  string to the output file raises, and whether printing a given line raises (standard
  output cannot encode it, or is closed).
\<close>

record env =
  et_parse :: "string \<Rightarrow> exn + element"
  fopen_w :: "string \<Rightarrow> exn option"
  fwrite :: "string \<Rightarrow> exn option"
  fprint :: "string \<Rightarrow> exn option"

record world =
  files :: "string \<rightharpoonup> string"
  stdout :: "string list"

text \<open>
  \<^verbatim>\<open>print(line)\<close>: the exception raised, if any, and the world after the call. A line
  that cannot be printed leaves standard output as it was.
\<close>

definition print_py :: "env \<Rightarrow> string \<Rightarrow> world \<Rightarrow> exn option \<times> world" where
  "print_py env line w =
     (case fprint env line of
        Some x \<Rightarrow> (Some x, w)
      | None \<Rightarrow> (None, w\<lparr>stdout := stdout w @ [line]\<rparr>))"

text \<open>
  \<^verbatim>\<open>fout.write(s)\<close>, on the text written so far: the exception raised, if any, and the
  text written after the call.
\<close>

definition fout_write :: "env \<Rightarrow> string \<Rightarrow> string \<Rightarrow> exn option \<times> string" where
  "fout_write env s fout =
     (case fwrite env s of Some x \<Rightarrow> (Some x, fout) | None \<Rightarrow> (None, fout @ s))"

subsection \<open>The three loops of the write phase\<close>

text \<open>
  Each loop runs over the list its \<^verbatim>\<open>iter\<close> call yields and stops at the first
  exception, which it hands on together with the text written until then.
\<close>

fun write_trackpoints :: "env \<Rightarrow> element list \<Rightarrow> string \<Rightarrow> exn option \<times> string" where
  "write_trackpoints env [] fout = (None, fout)"
| "write_trackpoints env (trackpoint # rest) fout =
     (case extract_trackpoint_data (Some trackpoint) None of
        Inl x \<Rightarrow> (Some x, fout)
      | Inr data \<Rightarrow>
          (case fout_write env (join '','' data @ [CHR 0x0A]) fout of
             (Some x, fout') \<Rightarrow> (Some x, fout')
           | (None, fout') \<Rightarrow> write_trackpoints env rest fout'))"

fun write_tracks :: "env \<Rightarrow> string \<Rightarrow> element list \<Rightarrow> string \<Rightarrow> exn option \<times> string" where
  "write_tracks env namespace [] fout = (None, fout)"
| "write_tracks env namespace (track # rest) fout =
     (case fout_write env (''New Track'' @ [CHR 0x0A]) fout of
        (Some x, fout') \<Rightarrow> (Some x, fout')
      | (None, fout') \<Rightarrow>
          (case write_trackpoints env (iter_py (namespace @ ''Trackpoint'') track) fout' of
             (Some x, fout'') \<Rightarrow> (Some x, fout'')
           | (None, fout'') \<Rightarrow> write_tracks env namespace rest fout''))"

fun write_laps :: "env \<Rightarrow> string \<Rightarrow> element list \<Rightarrow> string \<Rightarrow> exn option \<times> string" where
  "write_laps env namespace [] fout = (None, fout)"
| "write_laps env namespace (lap # rest) fout =
     (case fout_write env (''New Lap'' @ [CHR 0x0A]) fout of
        (Some x, fout') \<Rightarrow> (Some x, fout')
      | (None, fout') \<Rightarrow>
          (case write_tracks env namespace (iter_py (namespace @ ''Track'') lap) fout' of
             (Some x, fout'') \<Rightarrow> (Some x, fout'')
           | (None, fout'') \<Rightarrow> write_laps env namespace rest fout''))"

text \<open>
  The body of the \<^verbatim>\<open>with\<close> block: the header line, then the laps of the activity.
\<close>

definition write_csv ::
  "env \<Rightarrow> string \<Rightarrow> element \<Rightarrow> string list \<Rightarrow> exn option \<times> string" where
  "write_csv env namespace activity headers =
     (case fout_write env (join '','' headers @ [CHR 0x0A]) [] of
        (Some x, fout) \<Rightarrow> (Some x, fout)
      | (None, fout) \<Rightarrow>
          write_laps env namespace (iter_py (namespace @ ''Lap'') activity) fout)"

subsection \<open>main\<close>

text \<open>
  The body of the \<^verbatim>\<open>try\<close> statement: the exception that leaves it, if any, and the world
  it leaves behind. A \<^verbatim>\<open>return\<close> is a result without exception. The \<^verbatim>\<open>with\<close> block
  creates or truncates the output file when it is entered and closes it when it is left,
  also by an exception, so the file then holds what was written.
\<close>

definition main_try :: "env \<Rightarrow> string \<Rightarrow> string \<Rightarrow> world \<Rightarrow> exn option \<times> world" where
  "main_try env input_file output_file w =
     (case et_parse env input_file of
        Inl x \<Rightarrow> (Some x, w)
      | Inr root \<Rightarrow>
          (let namespace = (case re_match_namespace (elem_tag root) of
                              Some g \<Rightarrow> g | None \<Rightarrow> [])
           in if elem_tag root \<noteq> namespace @ ''TrainingCenterDatabase''
              then print_py env (''Unknown root found: '' @ elem_tag root) w
              else
                (case find_py root (namespace @ ''Activities'') of
                   None \<Rightarrow> print_py env ''Unable to find Activities under root'' w
                 | Some activities \<Rightarrow>
                     if length (elem_children activities) = 0
                     then print_py env ''Unable to find Activities under root'' w
                     else
                       (case find_py activities (namespace @ ''Activity'') of
                          None \<Rightarrow>
                            print_py env ''Unable to find Activity under Activities'' w
                        | Some activity \<Rightarrow>
                            if length (elem_children activity) = 0
                            then print_py env
                                   ''Unable to find Activity under Activities'' w
                            else
                              (let headers = extract_headers attributes []
                               in (case fopen_w env output_file of
                                     Some x \<Rightarrow> (Some x, w)
                                   | None \<Rightarrow>
                                       (case write_csv env namespace activity headers of
                                          (r, fout) \<Rightarrow>
                                            (r, w\<lparr>files :=
                                                    (files w)(output_file \<mapsto> fout)\<rparr>))))))))"

text \<open>
  \<^verbatim>\<open>main\<close>: the handler \<^verbatim>\<open>except Exception\<close> catches every exception of \<^typ>\<open>exn\<close>
  that leaves the body of the \<^verbatim>\<open>try\<close> statement and prints it. The \<^verbatim>\<open>print\<close> of the
  handler is not guarded: what it raises leaves \<^verbatim>\<open>main\<close>. The first component is the
  exception that leaves \<^verbatim>\<open>main\<close>.
\<close>

definition main :: "env \<Rightarrow> string \<Rightarrow> string \<Rightarrow> world \<Rightarrow> exn option \<times> world" where
  "main env input_file output_file w =
     (case main_try env input_file output_file w of
        (Some e, w') \<Rightarrow> print_py env (''Error processing file: '' @ exn_str e) w'
      | (None, w') \<Rightarrow> (None, w'))"

section \<open>Notions used in the statements\<close>

text \<open>
  The namespace \<^verbatim>\<open>main\<close> works with: group 1 of the match on the root tag, or the empty
  string.
\<close>

definition root_namespace :: "element \<Rightarrow> string" where
  "root_namespace root =
     (case re_match_namespace (elem_tag root) of Some g \<Rightarrow> g | None \<Rightarrow> [])"

text \<open>
  The activity \<^verbatim>\<open>main\<close> converts, when the root passes the three checks that precede
  the write phase.
\<close>

definition write_phase_activity :: "element \<Rightarrow> element option" where
  "write_phase_activity root =
     (if elem_tag root \<noteq> root_namespace root @ ''TrainingCenterDatabase'' then None
      else (case find_py root (root_namespace root @ ''Activities'') of
              None \<Rightarrow> None
            | Some activities \<Rightarrow>
                if elem_children activities = [] then None
                else (case find_py activities (root_namespace root @ ''Activity'') of
                        None \<Rightarrow> None
                      | Some activity \<Rightarrow>
                          if elem_children activity = [] then None else Some activity)))"

text \<open>
  The element \<^verbatim>\<open>extract_attribute\<close> descends into at an interior key: the child found
  under the wildcard namespace, and \<^verbatim>\<open>None\<close> when the element itself is \<^verbatim>\<open>None\<close>.
\<close>

definition child_for :: "element option \<Rightarrow> string \<Rightarrow> element option" where
  "child_for element key =
     (case element of None \<Rightarrow> None | Some e \<Rightarrow> find_py e (namespace_any @ key))"


text \<open>
  The elements of a tree in document order, an element before its children, and those
  among them with a given tag.
\<close>

fun preorder :: "element \<Rightarrow> element list" where
  "preorder (Element tg tx cs) = Element tg tx cs # concat (map preorder cs)"

definition elements_tagged :: "string \<Rightarrow> element \<Rightarrow> element list" where
  "elements_tagged t e = filter (\<lambda>x. elem_tag x = t) (preorder e)"

text \<open>
  The text a run without failure writes, stated from the document: the row of a
  trackpoint; a track is its boundary line and one line for each element under it (or
  itself) whose tag is the namespace followed by \<^verbatim>\<open>Trackpoint\<close>; a lap and the whole file
  likewise.
\<close>

definition data_row :: "element \<Rightarrow> string" where
  "data_row trackpoint =
     (case extract_trackpoint_data (Some trackpoint) None of
        Inr data \<Rightarrow> join '','' data | Inl x \<Rightarrow> [])"

definition track_text :: "string \<Rightarrow> element \<Rightarrow> string" where
  "track_text ns track =
     ''New Track'' @ [CHR 0x0A]
     @ concat (map (\<lambda>tp. data_row tp @ [CHR 0x0A]) (elements_tagged (ns @ ''Trackpoint'') track))"

definition lap_text :: "string \<Rightarrow> element \<Rightarrow> string" where
  "lap_text ns lap =
     ''New Lap'' @ [CHR 0x0A]
     @ concat (map (track_text ns) (elements_tagged (ns @ ''Track'') lap))"

definition csv_text :: "string \<Rightarrow> element \<Rightarrow> string" where
  "csv_text ns activity =
     ''Time,LatitudeDegrees,LongitudeDegrees,AltitudeMeters,HRBpm,Cadence,Speed,Watts,Grade''
     @ [CHR 0x0A]
     @ concat (map (lap_text ns) (elements_tagged (ns @ ''Lap'') activity))"

text \<open>The lines of a text: the pieces between line feeds, the last line feed closing a line.\<close>

definition file_lines :: "string \<Rightarrow> string list" where
  "file_lines s =
     (let parts = split (CHR 0x0A) s in if last parts = [] then butlast parts else parts)"

text \<open>
  A document placed under a namespace: \<open>qualify ns t\<close> puts the prefix \<open>ns\<close> before
  every tag of the tree \<open>t\<close>, whose tags are local names (\<open>plain_names\<close>: no braces).
  The prefix is empty (no namespace) or \<^verbatim>\<open>{uri}\<close> for a non-empty \<^verbatim>\<open>uri\<close> without closing
  brace and without line feed (\<open>ns_prefix\<close>).
\<close>

fun qualify :: "string \<Rightarrow> element \<Rightarrow> element" where
  "qualify ns (Element tg tx cs) = Element (ns @ tg) tx (map (qualify ns) cs)"

fun plain_names :: "element \<Rightarrow> bool" where
  "plain_names (Element tg tx cs) \<longleftrightarrow>
     CHR ''{'' \<notin> set tg \<and> CHR ''}'' \<notin> set tg \<and> list_all plain_names cs"



text \<open>
  An element without the children that the wildcard lookup of a key selects.
\<close>

definition without_child :: "string \<Rightarrow> element \<Rightarrow> element" where
  "without_child key e =
     Element (elem_tag e) (elem_text e)
       (filter (\<lambda>c. \<not> tag_selects (namespace_any @ key) (elem_tag c)) (elem_children e))"

section \<open>Example documents\<close>

definition example_ns :: string where
  "example_ns = ''{urn:tcx:v2}''"

definition trackpoint_a :: element where
  "trackpoint_a = Element (example_ns @ ''Trackpoint'') None
     [Element (example_ns @ ''Time'') (Some ''2024-01-01T00:00:00Z'') [],
      Element (example_ns @ ''Position'') None
        [Element (example_ns @ ''LatitudeDegrees'') (Some ''1.5'') [],
         Element (example_ns @ ''LongitudeDegrees'') (Some ''2.5'') []],
      Element (example_ns @ ''HeartRateBpm'') None
        [Element (example_ns @ ''Value'') (Some ''150'') []]]"

definition trackpoint_b :: element where
  "trackpoint_b = Element (example_ns @ ''Trackpoint'') None
     [Element (example_ns @ ''Time'') (Some ''2024-01-01T00:00:01Z'') [],
      Element (example_ns @ ''AltitudeMeters'') (Some '' 12.0 '') [],
      Element (example_ns @ ''Cadence'') (Some ''80'') [],
      Element (example_ns @ ''Extensions'') None
        [Element ''{urn:ext}TPX'' None
           [Element ''{urn:ext}Speed'' (Some ''3.1'') [],
            Element ''{urn:ext}Watts'' (Some ''200'') []]]]"

definition trackpoint_c :: element where
  "trackpoint_c = Element (example_ns @ ''Trackpoint'') None
     [Element (example_ns @ ''Time'') (Some ''2024-01-01T00:00:02Z'') []]"

definition trackpoint_d :: element where
  "trackpoint_d = Element (example_ns @ ''Trackpoint'') None []"

definition lap_1 :: element where
  "lap_1 = Element (example_ns @ ''Lap'') None
     [Element (example_ns @ ''TotalTimeSeconds'') (Some ''2'') [],
      Element (example_ns @ ''Track'') None [trackpoint_a, trackpoint_b]]"

definition lap_2 :: element where
  "lap_2 = Element (example_ns @ ''Lap'') None
     [Element (example_ns @ ''Track'') None [trackpoint_c, trackpoint_d]]"

definition example_activity :: element where
  "example_activity = Element (example_ns @ ''Activity'') None
     [Element (example_ns @ ''Id'') (Some ''2024-01-01T00:00:00Z'') [], lap_1, lap_2]"

definition example_document :: element where
  "example_document = Element (example_ns @ ''TrainingCenterDatabase'') None
     [Element (example_ns @ ''Activities'') None [example_activity]]"

text \<open>
  An environment in which \<^verbatim>\<open>activity.tcx\<close> parses to the example document and nothing
  fails, and a world with no files and nothing printed.
\<close>

definition example_env :: env where
  "example_env =
     \<lparr>et_parse = (\<lambda>path. if path = ''activity.tcx'' then Inr example_document
                          else Inl (OSError ''No such file or directory'')),
      fopen_w = (\<lambda>path. None),
      fwrite = (\<lambda>s. None), fprint = (\<lambda>s. None)\<rparr>"

definition empty_world :: world where
  "empty_world = \<lparr>files = Map.empty, stdout = []\<rparr>"

text \<open>
  A document without namespace whose only trackpoint has an altitude written with a
  decimal comma, and an environment that parses to it.
\<close>

definition comma_trackpoint :: element where
  "comma_trackpoint = Element ''Trackpoint'' None
     [Element ''Time'' (Some ''2024-01-01T00:00:00Z'') [],
      Element ''AltitudeMeters'' (Some ''12,5'') []]"

definition comma_document :: element where
  "comma_document = Element ''TrainingCenterDatabase'' None
     [Element ''Activities'' None
        [Element ''Activity'' None
           [Element ''Lap'' None [Element ''Track'' None [comma_trackpoint]]]]]"

definition comma_env :: env where
  "comma_env =
     \<lparr>et_parse = (\<lambda>path. Inr comma_document), fopen_w = (\<lambda>path. None), fwrite = (\<lambda>s. None), fprint = (\<lambda>s. None)\<rparr>"

text \<open>
  An environment in which parsing fails for every path but \<^verbatim>\<open>activity.tcx\<close> and no file
  can be opened for writing; a document that is not a TCX document; a document whose
  activity has no children; and a world in which the output file exists already.
\<close>

definition failing_env :: env where
  "failing_env =
     \<lparr>et_parse = (\<lambda>path. if path = ''activity.tcx'' then Inr example_document
                          else Inl (ParseError ''syntax error: line 1, column 0'')),
      fopen_w = (\<lambda>path. Some (OSError ''[Errno 13] Permission denied'')),
      fwrite = (\<lambda>s. None), fprint = (\<lambda>s. None)\<rparr>"



definition no_activity_document :: element where
  "no_activity_document = Element (example_ns @ ''TrainingCenterDatabase'') None
     [Element (example_ns @ ''Activities'') None
        [Element (example_ns @ ''Activity'') None []]]"

definition no_activity_env :: env where
  "no_activity_env = \<lparr>et_parse = (\<lambda>path. Inr no_activity_document),
     fopen_w = (\<lambda>path. None), fwrite = (\<lambda>s. None), fprint = (\<lambda>s. None)\<rparr>"

definition old_world :: world where
  "old_world = \<lparr>files = [''out.csv'' \<mapsto> ''kept''], stdout = []\<rparr>"

text \<open>
  Documents whose laps, tracks or trackpoints lie outside the namespace of the root, an
  environment that parses to them, and a document and a trackpoint without namespace.
\<close>

definition foreign_lap_document :: element where
  "foreign_lap_document = Element (example_ns @ ''TrainingCenterDatabase'') None
     [Element (example_ns @ ''Activities'') None
        [Element (example_ns @ ''Activity'') None
           [Element ''{urn:other}Lap'' None
              [Element (example_ns @ ''Track'') None [trackpoint_a]],
            Element ''Lap'' None
              [Element (example_ns @ ''Track'') None [trackpoint_c]]]]]"

definition foreign_track_document :: element where
  "foreign_track_document = Element (example_ns @ ''TrainingCenterDatabase'') None
     [Element (example_ns @ ''Activities'') None
        [Element (example_ns @ ''Activity'') None
           [Element (example_ns @ ''Lap'') None
              [Element ''Track'' None [trackpoint_a],
               Element (example_ns @ ''Track'') None
                 [Element ''{urn:other}Trackpoint'' None
                    [Element ''{urn:other}Time'' (Some ''2024-01-01T00:00:09Z'') []],
                  trackpoint_b]]]]]"

definition documents_env :: env where
  "documents_env =
     \<lparr>et_parse = (\<lambda>path. if path = ''foreign_lap.tcx'' then Inr foreign_lap_document
                          else Inr foreign_track_document),
      fopen_w = (\<lambda>path. None),
      fwrite = (\<lambda>s. None), fprint = (\<lambda>s. None)\<rparr>"



text \<open>
  A standard output that takes ASCII only, and an environment with it: \<^verbatim>\<open>menu.xml\<close>
  parses to a document whose root tag holds a letter outside ASCII, and every other path
  cannot be read, the message of the exception naming the path.
\<close>

definition ascii_only :: "string \<Rightarrow> exn option" where
  "ascii_only line =
     (if list_all (\<lambda>c. (of_char c :: nat) < 128) line then None
      else Some (UnicodeEncodeError ''ascii codec cannot encode character''))"

definition ascii_env :: env where
  "ascii_env =
     \<lparr>et_parse = (\<lambda>path. if path = ''menu.xml''
                          then Inr (Element (''caf'' @ [CHR 0xE9]) None [])
                          else Inl (OSError (''No such file or directory: '' @ path))),
      fopen_w = (\<lambda>path. None),
      fwrite = (\<lambda>s. None),
      fprint = ascii_only\<rparr>"

text \<open>
  A document with two laps, one track in each and two trackpoints in each track, in which
  the time of the first trackpoint holds a line feed.
\<close>

definition linefeed_track_1 :: element where
  "linefeed_track_1 = Element ''Track'' None
     [Element ''Trackpoint'' None [Element ''Time'' (Some (''a'' @ [CHR 0x0A] @ ''b'')) []],
      Element ''Trackpoint'' None [Element ''Time'' (Some ''t2'') []]]"

definition linefeed_track_2 :: element where
  "linefeed_track_2 = Element ''Track'' None
     [Element ''Trackpoint'' None [Element ''Time'' (Some ''t3'') []],
      Element ''Trackpoint'' None [Element ''Time'' (Some ''t4'') []]]"

definition linefeed_activity :: element where
  "linefeed_activity = Element ''Activity'' None
     [Element ''Lap'' None [linefeed_track_1], Element ''Lap'' None [linefeed_track_2]]"

definition linefeed_document :: element where
  "linefeed_document = Element ''TrainingCenterDatabase'' None
     [Element ''Activities'' None [linefeed_activity]]"

definition linefeed_env :: env where
  "linefeed_env =
     \<lparr>et_parse = (\<lambda>path. Inr linefeed_document), fopen_w = (\<lambda>path. None),
      fwrite = (\<lambda>s. None), fprint = (\<lambda>s. None)\<rparr>"

section \<open>Lemmas on the header and on the write phase\<close>

lemma extract_headers_append: "extract_headers d hs = hs @ extract_headers d []"
proof (induction d arbitrary: hs rule: measure_induct_rule [where f = "size_list (size_prod (\<lambda>_. 0) size)"])
  case (less d)
  show ?case
  proof (cases d)
    case Nil
    then show ?thesis by simp
  next
    case (Cons p rest)
    obtain key v where p: "p = (key, v)" by (cases p)
    have rest: "extract_headers rest h = h @ extract_headers rest []" for h
      by (rule less) (simp add: Cons)
    show ?thesis
    proof (cases v)
      case (Leaf s)
      have "extract_headers d hs = extract_headers rest (hs @ [s])"
        by (simp add: Cons p Leaf)
      also have "\<dots> = (hs @ [s]) @ extract_headers rest []" by (rule rest)
      finally have l: "extract_headers d hs = hs @ [s] @ extract_headers rest []" by simp
      have "extract_headers d [] = extract_headers rest [s]"
        by (simp add: Cons p Leaf)
      also have "\<dots> = [s] @ extract_headers rest []" by (rule rest)
      finally show ?thesis using l by simp
    next
      case (Nested d')
      have sub: "extract_headers d' h = h @ extract_headers d' []" for h
        by (rule less) (simp add: Cons p Nested)
      have "extract_headers d hs = extract_headers rest (extract_headers d' hs)"
        by (simp add: Cons p Nested)
      also have "\<dots> = extract_headers d' hs @ extract_headers rest []" by (rule rest)
      also have "extract_headers d' hs = hs @ extract_headers d' []" by (rule sub)
      finally have l: "extract_headers d hs
          = hs @ extract_headers d' [] @ extract_headers rest []" by simp
      have "extract_headers d [] = extract_headers rest (extract_headers d' [])"
        by (simp add: Cons p Nested)
      also have "\<dots> = extract_headers d' [] @ extract_headers rest []" by (rule rest)
      finally show ?thesis using l by simp
    qed
  qed
qed

lemma headers_attributes:
  "extract_headers attributes [] =
     [''Time'', ''LatitudeDegrees'', ''LongitudeDegrees'', ''AltitudeMeters'', ''HRBpm'',
      ''Cadence'', ''Speed'', ''Watts'', ''Grade'']"
  by (simp add: attributes_def)

lemma header_line:
  "join '','' (extract_headers attributes []) =
     ''Time,LatitudeDegrees,LongitudeDegrees,AltitudeMeters,HRBpm,Cadence,Speed,Watts,Grade''"
  by (simp add: headers_attributes)

lemma write_phase_activityD:
  assumes "write_phase_activity root = Some activity"
  shows "elem_tag root = root_namespace root @ ''TrainingCenterDatabase''"
    and "\<exists>activities. find_py root (root_namespace root @ ''Activities'') = Some activities
           \<and> elem_children activities \<noteq> []
           \<and> find_py activities (root_namespace root @ ''Activity'') = Some activity"
    and "elem_children activity \<noteq> []"
  using assms
  by (auto simp: write_phase_activity_def split: if_splits option.splits)

lemma main_try_write_phase:
  assumes "et_parse env input_file = Inr root"
    and "write_phase_activity root = Some activity"
    and "fopen_w env output_file = None"
  shows "main_try env input_file output_file w =
     (case write_csv env (root_namespace root) activity (extract_headers attributes []) of
        (r, fout) \<Rightarrow> (r, w\<lparr>files := (files w)(output_file \<mapsto> fout)\<rparr>))"
proof -
  from write_phase_activityD [OF assms(2)] obtain activities where
    a: "elem_tag root = root_namespace root @ ''TrainingCenterDatabase''"
      "find_py root (root_namespace root @ ''Activities'') = Some activities"
      "elem_children activities \<noteq> []"
      "find_py activities (root_namespace root @ ''Activity'') = Some activity"
      "elem_children activity \<noteq> []"
    by blast
  show ?thesis
    unfolding main_try_def root_namespace_def [symmetric] Let_def
    using assms(1,3) a by simp
qed

lemma print_py_files: "files (snd (print_py env line w)) = files w"
  by (simp add: print_py_def split: option.splits)

lemma print_py_ok:
  "fprint env line = None \<Longrightarrow> print_py env line w = (None, w\<lparr>stdout := stdout w @ [line]\<rparr>)"
  by (simp add: print_py_def)

lemma main_returns: "main_try env i out w = (None, w') \<Longrightarrow> main env i out w = (None, w')"
  by (simp add: main_def)

lemma main_handles:
  "main_try env i out w = (Some x, w') \<Longrightarrow>
   main env i out w = print_py env (''Error processing file: '' @ exn_str x) w'"
  by (simp add: main_def)

lemma main_files:
  "files (snd (main env i out w)) = files (snd (main_try env i out w))"
  by (simp add: main_def print_py_files split: prod.splits option.splits)


lemma fout_write_extends: "\<exists>rest. snd (fout_write env s fout) = fout @ rest"
  by (simp add: fout_write_def split: option.splits)

lemma write_trackpoints_extends: "\<exists>rest. snd (write_trackpoints env tps fout) = fout @ rest"
proof (induction tps arbitrary: fout)
  case Nil
  show ?case by simp
next
  case (Cons tp tps)
  show ?case
  proof (cases "extract_trackpoint_data (Some tp) None")
    case (Inl x)
    then show ?thesis by simp
  next
    case (Inr data)
    show ?thesis
    proof (cases "fwrite env (join '','' data @ [CHR 0x0A])")
      case None
      obtain rest where
        "snd (write_trackpoints env tps (fout @ join '','' data @ [CHR 0x0A]))
           = (fout @ join '','' data @ [CHR 0x0A]) @ rest"
        using Cons.IH by blast
      then show ?thesis using Inr None by (simp add: fout_write_def)
    next
      case (Some x)
      then show ?thesis using Inr by (simp add: fout_write_def)
    qed
  qed
qed

lemma write_tracks_extends: "\<exists>rest. snd (write_tracks env ns tracks fout) = fout @ rest"
proof (induction tracks arbitrary: fout)
  case Nil
  show ?case by simp
next
  case (Cons track tracks)
  show ?case
  proof (cases "fwrite env (''New Track'' @ [CHR 0x0A])")
    case (Some x)
    then show ?thesis by (simp add: fout_write_def)
  next
    case None
    let ?f1 = "fout @ ''New Track'' @ [CHR 0x0A]"
    obtain r1 where r1: "snd (write_trackpoints env (iter_py (ns @ ''Trackpoint'') track) ?f1)
        = ?f1 @ r1"
      using write_trackpoints_extends by blast
    obtain r2 where r2: "snd (write_tracks env ns tracks (?f1 @ r1)) = (?f1 @ r1) @ r2"
      using Cons.IH by blast
    show ?thesis
    proof (cases "write_trackpoints env (iter_py (ns @ ''Trackpoint'') track) ?f1")
      case (Pair e f2)
      with r1 have f2: "f2 = ?f1 @ r1" by simp
      show ?thesis
      proof (cases e)
        case None
        with Pair f2 r2 \<open>fwrite env (''New Track'' @ [CHR 0x0A]) = None\<close>
        show ?thesis by (simp add: fout_write_def)
      next
        case (Some x)
        with Pair f2 \<open>fwrite env (''New Track'' @ [CHR 0x0A]) = None\<close>
        show ?thesis by (simp add: fout_write_def)
      qed
    qed
  qed
qed

lemma write_laps_extends: "\<exists>rest. snd (write_laps env ns laps fout) = fout @ rest"
proof (induction laps arbitrary: fout)
  case Nil
  show ?case by simp
next
  case (Cons lap laps)
  show ?case
  proof (cases "fwrite env (''New Lap'' @ [CHR 0x0A])")
    case (Some x)
    then show ?thesis by (simp add: fout_write_def)
  next
    case None
    let ?f1 = "fout @ ''New Lap'' @ [CHR 0x0A]"
    obtain r1 where r1: "snd (write_tracks env ns (iter_py (ns @ ''Track'') lap) ?f1)
        = ?f1 @ r1"
      using write_tracks_extends by blast
    obtain r2 where r2: "snd (write_laps env ns laps (?f1 @ r1)) = (?f1 @ r1) @ r2"
      using Cons.IH by blast
    show ?thesis
    proof (cases "write_tracks env ns (iter_py (ns @ ''Track'') lap) ?f1")
      case (Pair e f2)
      with r1 have f2: "f2 = ?f1 @ r1" by simp
      show ?thesis
      proof (cases e)
        case None
        with Pair f2 r2 \<open>fwrite env (''New Lap'' @ [CHR 0x0A]) = None\<close>
        show ?thesis by (simp add: fout_write_def)
      next
        case (Some x)
        with Pair f2 \<open>fwrite env (''New Lap'' @ [CHR 0x0A]) = None\<close>
        show ?thesis by (simp add: fout_write_def)
      qed
    qed
  qed
qed

lemma write_csv_header:
  assumes "fwrite env (join '','' headers @ [CHR 0x0A]) = None"
  shows "\<exists>rest. snd (write_csv env ns activity headers) = join '','' headers @ [CHR 0x0A] @ rest"
proof -
  obtain rest where "snd (write_laps env ns (iter_py (ns @ ''Lap'') activity)
      (join '','' headers @ [CHR 0x0A])) = (join '','' headers @ [CHR 0x0A]) @ rest"
    using write_laps_extends by blast
  then show ?thesis using assms by (simp add: write_csv_def fout_write_def)
qed

lemma example_document_write_phase:
  "write_phase_activity example_document = Some example_activity"
  by (simp add: write_phase_activity_def root_namespace_def re_match_namespace_def
      example_document_def example_activity_def example_ns_def find_py_def tag_selects_def)

section \<open>Lemmas on the extraction\<close>

lemma headers_Leaf:
  "extract_headers ((key, Leaf v) # rest) [] = v # extract_headers rest []"
proof -
  have "extract_headers ((key, Leaf v) # rest) [] = extract_headers rest [v]" by simp
  also have "\<dots> = [v] @ extract_headers rest []" by (rule extract_headers_append)
  finally show ?thesis by simp
qed

lemma headers_Nested:
  "extract_headers ((key, Nested d) # rest) [] = extract_headers d [] @ extract_headers rest []"
proof -
  have "extract_headers ((key, Nested d) # rest) [] = extract_headers rest (extract_headers d [])"
    by simp
  also have "\<dots> = extract_headers d [] @ extract_headers rest []"
    by (rule extract_headers_append)
  finally show ?thesis .
qed

lemma extract_items_Nested:
  "extract_items element ((key, Nested d) # rest) results =
     (case extract_items
             (case element of None \<Rightarrow> None | Some e \<Rightarrow> find_py e (namespace_any @ key))
             d [] of
        Inl x \<Rightarrow> Inl x
      | Inr sub \<Rightarrow> extract_items element rest (results @ sub))"
  by (cases element) (simp_all split: sum.splits)

lemma get_element_text_total: "\<exists>t. get_element_text element tag = Inr t"
  by (cases element) (auto simp: get_element_text_def split: option.splits)

lemma get_element_text_None: "get_element_text None tag = Inr []"
  by (simp add: get_element_text_def)

lemma extract_items_total:
  "\<exists>r. (\<forall>rs. extract_items element d rs = Inr (rs @ r))
       \<and> length r = length (extract_headers d [])"
proof (induction d arbitrary: element
    rule: measure_induct_rule [where f = "size_list (size_prod (\<lambda>_. 0) size)"])
  case (less d)
  show ?case
  proof (cases d)
    case Nil
    then show ?thesis by simp
  next
    case (Cons p rest)
    obtain key v where p: "p = (key, v)" by (cases p)
    obtain r' where r': "\<And>rs. extract_items element rest rs = Inr (rs @ r')"
      "length r' = length (extract_headers rest [])"
      using less [of rest element] Cons by auto
    show ?thesis
    proof (cases v)
      case (Leaf s)
      obtain t where t: "get_element_text element (namespace_any @ key) = Inr t"
        using get_element_text_total by blast
      have "extract_items element d rs = Inr (rs @ t # r')" for rs
        using Cons p Leaf t r'(1) [of "rs @ [t]"] by simp
      moreover have "length (t # r') = length (extract_headers d [])"
        using Cons p Leaf r'(2) by (simp add: headers_Leaf del: extract_headers.simps)
      ultimately show ?thesis by blast
    next
      case (Nested d')
      let ?child = "case element of None \<Rightarrow> None | Some e \<Rightarrow> find_py e (namespace_any @ key)"
      obtain sub where sub: "\<And>rs. extract_items ?child d' rs = Inr (rs @ sub)"
        "length sub = length (extract_headers d' [])"
        using less [of d' ?child] Cons p Nested by auto
      have "extract_items element d rs = Inr (rs @ sub @ r')" for rs
        using Cons p Nested sub(1) [of "[]"] r'(1) [of "rs @ sub"]
        by (simp add: extract_items_Nested del: extract_items.simps)
      moreover have "length (sub @ r') = length (extract_headers d [])"
        using Cons p Nested r'(2) sub(2) by (simp add: headers_Nested del: extract_headers.simps)
      ultimately show ?thesis by blast
    qed
  qed
qed

lemma extract_items_results:
  "extract_items element d rs = Inr r \<Longrightarrow> extract_items element d rs' = Inr (rs' @ drop (length rs) r)"
proof -
  assume a: "extract_items element d rs = Inr r"
  obtain r0 where r0: "\<And>rs. extract_items element d rs = Inr (rs @ r0)"
    using extract_items_total [of element d] by blast
  from a r0 [of rs] have "r = rs @ r0" by simp
  then show ?thesis using r0 [of rs'] by simp
qed

lemma extract_items_None:
  "extract_items None d rs = Inr (rs @ replicate (length (extract_headers d [])) [])"
proof (induction d arbitrary: rs
    rule: measure_induct_rule [where f = "size_list (size_prod (\<lambda>_. 0) size)"])
  case (less d)
  show ?case
  proof (cases d)
    case Nil
    then show ?thesis by simp
  next
    case (Cons p rest)
    obtain key v where p: "p = (key, v)" by (cases p)
    have rest: "extract_items None rest rs
        = Inr (rs @ replicate (length (extract_headers rest [])) [])" for rs
      by (rule less) (simp add: Cons)
    show ?thesis
    proof (cases v)
      case (Leaf s)
      show ?thesis
        using Cons p Leaf rest [of "rs @ [[]]"]
        by (simp add: get_element_text_None headers_Leaf del: extract_headers.simps)
    next
      case (Nested d')
      have sub: "extract_items None d' [] = Inr (replicate (length (extract_headers d' [])) [])"
        using less [of d' "[]"] Cons p Nested by simp
      show ?thesis
        using Cons p Nested sub rest [of "rs @ replicate (length (extract_headers d' [])) []"]
        by (simp add: extract_items_Nested headers_Nested replicate_add del: extract_headers.simps extract_items.simps)
    qed
  qed
qed

lemma extract_items_append:
  assumes "extract_items element pre [] = Inr a"
    and "extract_items element post [] = Inr b"
  shows "extract_items element (pre @ post) rs = Inr (rs @ a @ b)"
  using assms(1)
proof (induction pre arbitrary: rs a
    rule: measure_induct_rule [where f = "size_list (size_prod (\<lambda>_. 0) size)"])
  case (less pre)
  show ?case
  proof (cases pre)
    case Nil
    with less.prems have "a = []" by simp
    then show ?thesis using Nil extract_items_results [OF assms(2), of rs] by simp
  next
    case (Cons p rest)
    obtain key v where p: "p = (key, v)" by (cases p)
    obtain r' where r': "\<And>rs. extract_items element rest rs = Inr (rs @ r')"
      using extract_items_total [of element rest] by blast
    have IH: "extract_items element (rest @ post) rs = Inr (rs @ r' @ b)" for rs
      using less.IH [of rest r' rs] r' [of "[]"] Cons by simp
    show ?thesis
    proof (cases v)
      case (Leaf s)
      obtain t where t: "get_element_text element (namespace_any @ key) = Inr t"
        using get_element_text_total by blast
      have "a = t # r'"
        using less.prems Cons p Leaf t r' [of "[t]"] by simp
      then show ?thesis
        using Cons p Leaf t IH [of "rs @ [t]"] by simp
    next
      case (Nested d')
      let ?child = "case element of None \<Rightarrow> None | Some e \<Rightarrow> find_py e (namespace_any @ key)"
      obtain sub where sub: "\<And>rs. extract_items ?child d' rs = Inr (rs @ sub)"
        using extract_items_total [of ?child d'] by blast
      have "a = sub @ r'"
        using less.prems Cons p Nested sub [of "[]"] r' [of sub]
        by (simp add: extract_items_Nested del: extract_items.simps)
      then show ?thesis
        using Cons p Nested sub [of "[]"] IH [of "rs @ sub"]
        by (simp add: extract_items_Nested del: extract_items.simps)
    qed
  qed
qed

lemma split_no_sep: "c \<notin> set v \<Longrightarrow> split c v = [v]"
  by (induction v) auto

lemma split_append_sep: "c \<notin> set v \<Longrightarrow> split c (v @ c # rest) = v # split c rest"
  by (induction v) auto

lemma split_join:
  "xs \<noteq> [] \<Longrightarrow> \<forall>v\<in>set xs. c \<notin> set v \<Longrightarrow> split c (join [c] xs) = xs"
proof (induction "[c]" xs rule: join.induct)
  case 1
  then show ?case by simp
next
  case (2 x)
  then show ?case by (simp add: split_no_sep)
next
  case (3 x y ys)
  then show ?case by (simp add: split_append_sep)
qed

lemma takeWhile_upto: "c \<notin> set ys \<Longrightarrow> takeWhile (\<lambda>x. x \<noteq> c) (ys @ c # zs) = ys"
  by (induction ys) auto

lemma last_sep_unique:
  assumes "xs @ c # ys = xs' @ c # ys'" and "c \<notin> set ys" and "c \<notin> set ys'"
  shows "ys = ys'"
proof -
  have "takeWhile (\<lambda>x. x \<noteq> c) (rev (xs @ c # ys)) = rev ys"
    using assms(2) by (simp add: takeWhile_upto)
  moreover have "takeWhile (\<lambda>x. x \<noteq> c) (rev (xs' @ c # ys')) = rev ys'"
    using assms(3) by (simp add: takeWhile_upto)
  ultimately show ?thesis using assms(1) by simp
qed

lemma tag_selects_any:
  assumes ns: "ns = [] \<or> last ns = CHR ''}''"
    and l: "CHR ''}'' \<notin> set local" and k: "CHR ''}'' \<notin> set key"
  shows "tag_selects (CHR ''{'' # CHR ''*'' # CHR ''}'' # key) (ns @ local) \<longleftrightarrow> local = key"
proof
  assume sel: "tag_selects (CHR ''{'' # CHR ''*'' # CHR ''}'' # key) (ns @ local)"
  then consider (plain) "ns @ local = key"
    | (suffix) "drop (length (ns @ local) - length (CHR ''}'' # key)) (ns @ local) = CHR ''}'' # key"
    by (auto simp: tag_selects_def Let_def)
  then show "local = key"
  proof cases
    case plain
    with k have "CHR ''}'' \<notin> set ns" by auto
    with ns have "ns = []" using last_in_set by fastforce
    with plain show ?thesis by simp
  next
    case suffix
    let ?n = "length (ns @ local) - length (CHR ''}'' # key)"
    have "ns @ local = take ?n (ns @ local) @ CHR ''}'' # key"
      using suffix append_take_drop_id [of ?n "ns @ local"] by simp
    then obtain p where el: "ns @ local = p @ CHR ''}'' # key" by blast
    have "ns \<noteq> []"
    proof
      assume "ns = []"
      with el have "CHR ''}'' \<in> set local"
        by (metis append_Nil in_set_conv_decomp)
      with l show False by simp
    qed
    with ns obtain ns' where "ns = ns' @ [CHR ''}'']"
      by (metis append_butlast_last_id)
    with el have "ns' @ CHR ''}'' # local = p @ CHR ''}'' # key" by simp
    from last_sep_unique [OF this l k] show ?thesis .
  qed
next
  assume eq: "local = key"
  show "tag_selects (CHR ''{'' # CHR ''*'' # CHR ''}'' # key) (ns @ local)"
  proof (cases "ns = []")
    case True
    with eq show ?thesis by (simp add: tag_selects_def)
  next
    case False
    with ns obtain ns' where "ns = ns' @ [CHR ''}'']"
      by (metis append_butlast_last_id)
    with eq show ?thesis by (simp add: tag_selects_def)
  qed
qed

lemma extract_trackpoint_data_total:
  "\<exists>data. extract_trackpoint_data trackpoint None = Inr data \<and> length data = 9"
proof -
  obtain r where "\<And>rs. extract_items trackpoint attributes rs = Inr (rs @ r)"
    and "length r = length (extract_headers attributes [])"
    using extract_items_total [of trackpoint attributes] by blast
  then show ?thesis
    using extract_items_total
    by (simp add: extract_trackpoint_data_def extract_attribute_def headers_attributes)
qed

section \<open>Lemmas on the checks of main\<close>






lemma main_try_mismatch:
  assumes "et_parse env input_file = Inr root"
    and "write_phase_activity root = None"
  shows "\<exists>msg \<in> {''Unknown root found: '' @ elem_tag root,
                   ''Unable to find Activities under root'',
                   ''Unable to find Activity under Activities''}.
           main_try env input_file output_file w = print_py env msg w"
  using assms
  unfolding main_try_def root_namespace_def [symmetric] Let_def write_phase_activity_def
  by (auto split: if_splits option.splits)

lemma main_try_mismatch_env:
  assumes "et_parse env input_file = Inr root"
    and "write_phase_activity root = None"
  shows "main_try (env\<lparr>fopen_w := opn, fwrite := wr\<rparr>) input_file output_file w
     = main_try env input_file output_file w"
  using assms
  unfolding main_try_def root_namespace_def [symmetric] Let_def write_phase_activity_def
  by (auto simp: print_py_def split: if_splits option.splits)

section \<open>Lemmas on the text written and on namespaces\<close>

lemma iter_py_filter: "t \<noteq> ''*'' \<Longrightarrow> iter_py t e = filter (\<lambda>x. elem_tag x = t) (preorder e)"
proof (induction e rule: preorder.induct)
  case (1 tg tx cs)
  have "concat (map (iter_py t) cs) = concat (map (\<lambda>c. filter (\<lambda>x. elem_tag x = t) (preorder c)) cs)"
    using 1 by (auto intro!: arg_cong [where f = concat] map_cong)
  then show ?case using 1(2) by (simp add: filter_concat comp_def)
qed

lemma iter_py_tagged:
  assumes "2 \<le> length name"
  shows "iter_py (ns @ name) e = elements_tagged (ns @ name) e"
proof -
  from assms have "length (ns @ name) \<noteq> length ''*''" by simp
  then have "ns @ name \<noteq> ''*''" by metis
  then show ?thesis by (simp add: iter_py_filter elements_tagged_def)
qed

lemma write_trackpoints_ok:
  assumes "\<forall>s. fwrite env s = None"
  shows "write_trackpoints env tps fout
     = (None, fout @ concat (map (\<lambda>tp. data_row tp @ [CHR 0x0A]) tps))"
proof (induction tps arbitrary: fout)
  case Nil
  show ?case by simp
next
  case (Cons tp tps)
  obtain data where "extract_trackpoint_data (Some tp) None = Inr data"
    using extract_trackpoint_data_total by blast
  then show ?case using assms Cons by (simp add: fout_write_def data_row_def)
qed

lemma write_tracks_ok:
  assumes "\<forall>s. fwrite env s = None"
  shows "write_tracks env ns tracks fout = (None, fout @ concat (map (track_text ns) tracks))"
proof (induction tracks arbitrary: fout)
  case Nil
  show ?case by simp
next
  case (Cons track tracks)
  show ?case
    using assms Cons
    by (simp add: fout_write_def track_text_def write_trackpoints_ok [OF assms] iter_py_tagged)
qed

lemma write_laps_ok:
  assumes "\<forall>s. fwrite env s = None"
  shows "write_laps env ns laps fout = (None, fout @ concat (map (lap_text ns) laps))"
proof (induction laps arbitrary: fout)
  case Nil
  show ?case by simp
next
  case (Cons lap laps)
  show ?case
    using assms Cons
    by (simp add: fout_write_def lap_text_def write_tracks_ok [OF assms] iter_py_tagged)
qed

lemma write_csv_ok:
  assumes "\<forall>s. fwrite env s = None"
  shows "write_csv env ns activity (extract_headers attributes []) = (None, csv_text ns activity)"
  using assms
  by (simp add: write_csv_def fout_write_def csv_text_def write_laps_ok [OF assms]
      iter_py_tagged header_line del: join.simps)

lemma main_writes_csv_text:
  assumes "et_parse env input_file = Inr root"
    and "write_phase_activity root = Some activity"
    and "fopen_w env output_file = None"
    and "\<forall>s. fwrite env s = None"
  shows "main env input_file output_file w =
     (None, w\<lparr>files := (files w)(output_file \<mapsto> csv_text (root_namespace root) activity)\<rparr>)"
  by (simp add: main_def main_try_write_phase [OF assms(1-3)] write_csv_ok [OF assms(4)])

lemma elements_tagged_none:
  "\<forall>x\<in>set (preorder e). elem_tag x \<noteq> t \<Longrightarrow> elements_tagged t e = []"
  by (simp add: elements_tagged_def filter_empty_conv)

lemmas example_defs = example_document_def example_activity_def lap_1_def lap_2_def
  trackpoint_a_def trackpoint_b_def trackpoint_c_def trackpoint_d_def example_ns_def

lemmas eval_defs = extract_trackpoint_data_def extract_attribute_def attributes_def
  get_element_text_def find_py_def namespace_any_def tag_selects_def strip_def py_isspace_def

lemmas foreign_defs = foreign_lap_document_def foreign_track_document_def documents_env_def










lemma elem_tag_qualify [simp]: "elem_tag (qualify ns e) = ns @ elem_tag e"
  by (cases e) simp

lemma elem_text_qualify [simp]: "elem_text (qualify ns e) = elem_text e"
  by (cases e) simp

lemma elem_children_qualify [simp]:
  "elem_children (qualify ns e) = map (qualify ns) (elem_children e)"
  by (cases e) simp













lemma plain_names_preorder: "plain_names e \<Longrightarrow> x \<in> set (preorder e) \<Longrightarrow> plain_names x"
proof (induction e rule: preorder.induct)
  case (1 tg tx cs)
  then show ?case by (auto simp: list_all_iff)
qed











lemma main_try_activity:
  assumes "et_parse env input_file = Inr root"
    and "write_phase_activity root = Some activity"
  shows "main_try env input_file output_file w =
     (case fopen_w env output_file of
        Some x \<Rightarrow> (Some x, w)
      | None \<Rightarrow>
          (case write_csv env (root_namespace root) activity (extract_headers attributes []) of
             (r, fout) \<Rightarrow> (r, w\<lparr>files := (files w)(output_file \<mapsto> fout)\<rparr>)))"
proof -
  from write_phase_activityD [OF assms(2)] obtain activities where
    a: "elem_tag root = root_namespace root @ ''TrainingCenterDatabase''"
      "find_py root (root_namespace root @ ''Activities'') = Some activities"
      "elem_children activities \<noteq> []"
      "find_py activities (root_namespace root @ ''Activity'') = Some activity"
      "elem_children activity \<noteq> []"
    by blast
  show ?thesis
    unfolding main_try_def root_namespace_def [symmetric] Let_def
    using assms(1) a by simp
qed

lemma fout_write_et_parse [simp]:
  "fout_write (env\<lparr>et_parse := p\<rparr>) s fout = fout_write env s fout"
  by (simp add: fout_write_def)

lemma write_trackpoints_et_parse [simp]:
  "write_trackpoints (env\<lparr>et_parse := p\<rparr>) tps fout = write_trackpoints env tps fout"
  by (induction tps arbitrary: fout) (simp_all split: sum.splits prod.splits option.splits)

lemma write_tracks_et_parse [simp]:
  "write_tracks (env\<lparr>et_parse := p\<rparr>) ns tracks fout = write_tracks env ns tracks fout"
  by (induction tracks arbitrary: fout) (simp_all split: sum.splits prod.splits option.splits)

lemma write_laps_et_parse [simp]:
  "write_laps (env\<lparr>et_parse := p\<rparr>) ns laps fout = write_laps env ns laps fout"
  by (induction laps arbitrary: fout) (simp_all split: sum.splits prod.splits option.splits)

lemma write_csv_et_parse [simp]:
  "write_csv (env\<lparr>et_parse := p\<rparr>) ns activity headers = write_csv env ns activity headers"
  by (simp add: write_csv_def split: prod.splits option.splits)


section \<open>Lemmas on removing a child\<close>

lemma tag_selects_any_cases:
  "tag_selects (namespace_any @ key) t \<longleftrightarrow> t = key \<or> (\<exists>p. t = p @ CHR ''}'' # key)"
proof -
  let ?n = "length t - length (CHR ''}'' # key)"
  have "drop ?n t = CHR ''}'' # key \<longleftrightarrow> (\<exists>p. t = p @ CHR ''}'' # key)"
  proof
    assume "drop ?n t = CHR ''}'' # key"
    then have "t = take ?n t @ CHR ''}'' # key"
      using append_take_drop_id [of ?n t] by simp
    then show "\<exists>p. t = p @ CHR ''}'' # key" by blast
  next
    assume "\<exists>p. t = p @ CHR ''}'' # key"
    then obtain p where "t = p @ CHR ''}'' # key" by blast
    then show "drop ?n t = CHR ''}'' # key" by simp
  qed
  then show ?thesis by (simp add: tag_selects_def namespace_any_def)
qed

lemma tag_selects_one_key:
  assumes "tag_selects (namespace_any @ k) t" and "tag_selects (namespace_any @ k') t"
    and "CHR ''}'' \<notin> set k" and "CHR ''}'' \<notin> set k'"
  shows "k = k'"
proof -
  from assms(1) consider "t = k" | p where "t = p @ CHR ''}'' # k"
    by (auto simp: tag_selects_any_cases)
  then show ?thesis
  proof cases
    case 1
    from assms(2) consider "t = k'" | p' where "t = p' @ CHR ''}'' # k'"
      by (auto simp: tag_selects_any_cases)
    then show ?thesis
    proof cases
      case 1
      with \<open>t = k\<close> show ?thesis by simp
    next
      case 2
      with \<open>t = k\<close> assms(3) show ?thesis by auto
    qed
  next
    case 2
    from assms(2) consider "t = k'" | p' where "t = p' @ CHR ''}'' # k'"
      by (auto simp: tag_selects_any_cases)
    then show ?thesis
    proof cases
      case 1
      with 2 assms(4) show ?thesis by auto
    next
      case (2 p')
      with \<open>t = p @ CHR ''}'' # k\<close> have "p @ CHR ''}'' # k = p' @ CHR ''}'' # k'" by simp
      from last_sep_unique [OF this assms(3,4)] show ?thesis .
    qed
  qed
qed

lemma find_filter_implied:
  "(\<And>x. x \<in> set xs \<Longrightarrow> P x \<Longrightarrow> Q x) \<Longrightarrow> List.find P (filter Q xs) = List.find P xs"
  by (induction xs) auto

lemma find_py_without_child:
  assumes "k \<noteq> key" and "CHR ''}'' \<notin> set k" and "CHR ''}'' \<notin> set key"
  shows "find_py (without_child key e) (namespace_any @ k) = find_py e (namespace_any @ k)"
  unfolding find_py_def without_child_def
  using tag_selects_one_key [OF _ _ assms(2,3)] assms(1)
  by (auto intro!: find_filter_implied)

lemma find_py_without_child_self:
  "find_py (without_child key e) (namespace_any @ key) = None"
  by (simp add: find_py_def without_child_def find_None_iff)

lemma extract_items_without_child:
  assumes "CHR ''}'' \<notin> set key"
  shows "\<forall>k\<in>fst ` set d. k \<noteq> key \<and> CHR ''}'' \<notin> set k \<Longrightarrow>
    extract_items (Some (without_child key e)) d rs = extract_items (Some e) d rs"
proof (induction d arbitrary: rs)
  case Nil
  show ?case by simp
next
  case (Cons p rest)
  obtain k v where p: "p = (k, v)" by (cases p)
  from Cons.prems p have k: "k \<noteq> key" "CHR ''}'' \<notin> set k" by simp_all
  have rest: "extract_items (Some (without_child key e)) rest r = extract_items (Some e) rest r"
    for r
    using Cons by simp
  have f: "find_py (without_child key e) (namespace_any @ k) = find_py e (namespace_any @ k)"
    by (rule find_py_without_child [OF k assms])
  show ?case
  proof (cases v)
    case (Leaf s)
    then show ?thesis using p rest f by (simp add: get_element_text_def cong: sum.case_cong)
  next
    case (Nested d')
    then show ?thesis
      using p rest f
      by (simp add: extract_items_Nested cong: sum.case_cong del: extract_items.simps)
  qed
qed

lemma removal_blanks_node:
  assumes "CHR ''}'' \<notin> set key"
    and "\<forall>k\<in>fst ` set (pre @ post). k \<noteq> key \<and> CHR ''}'' \<notin> set k"
  shows "\<exists>a s b. extract_attribute (Some e) (pre @ (key, Nested sub) # post) = Inr (a @ s @ b)
           \<and> length a = length (extract_headers pre [])
           \<and> length s = length (extract_headers sub [])
           \<and> extract_attribute (Some (without_child key e)) (pre @ (key, Nested sub) # post)
               = Inr (a @ replicate (length s) [] @ b)"
proof -
  obtain a where a: "\<And>rs. extract_items (Some e) pre rs = Inr (rs @ a)"
    "length a = length (extract_headers pre [])"
    using extract_items_total [of "Some e" pre] by blast
  obtain s where s: "\<And>rs. extract_items (child_for (Some e) key) sub rs = Inr (rs @ s)"
    "length s = length (extract_headers sub [])"
    using extract_items_total [of "child_for (Some e) key" sub] by blast
  obtain b where b: "\<And>rs. extract_items (Some e) post rs = Inr (rs @ b)"
    using extract_items_total [of "Some e" post] by blast
  have node: "extract_items (Some e) ((key, Nested sub) # post) [] = Inr (s @ b)"
    using s(1) [of "[]"] b [of s]
    by (simp add: extract_items_Nested child_for_def del: extract_items.simps)
  have whole: "extract_items (Some e) (pre @ (key, Nested sub) # post) [] = Inr (a @ s @ b)"
    using extract_items_append [OF _ node, of pre a "[]"] a(1) [of "[]"] by simp
  let ?e' = "without_child key e"
  have a': "extract_items (Some ?e') pre [] = Inr a"
    using extract_items_without_child [OF assms(1), of pre e "[]"] assms(2) a(1) [of "[]"]
    by simp
  have b': "extract_items (Some ?e') post r = Inr (r @ b)" for r
    using extract_items_without_child [OF assms(1), of post e r] assms(2) b [of r] by simp
  have node': "extract_items (Some ?e') ((key, Nested sub) # post) []
      = Inr (replicate (length s) [] @ b)"
    using b' [of "replicate (length s) []"] s(2)
    by (simp add: extract_items_Nested find_py_without_child_self extract_items_None
        del: extract_items.simps)
  have whole': "extract_items (Some ?e') (pre @ (key, Nested sub) # post) []
      = Inr (a @ replicate (length s) [] @ b)"
    using extract_items_append [OF a' node', of "[]"] by simp
  have "extract_attribute (Some e) (pre @ (key, Nested sub) # post) = Inr (a @ s @ b)
      \<and> length a = length (extract_headers pre [])
      \<and> length s = length (extract_headers sub [])
      \<and> extract_attribute (Some (without_child key e)) (pre @ (key, Nested sub) # post)
          = Inr (a @ replicate (length s) [] @ b)"
    using whole whole' a(2) s(2) by (simp add: extract_attribute_def)
  then show ?thesis by blast
qed

section \<open>The claims\<close>

text \<open>
  C1, as stated, fails: the values are joined without quoting, so a value that contains a
  comma adds a field. For the document below the data row
  \<^verbatim>\<open>2024-01-01T00:00:00Z,,,12,5,,,,,\<close> has ten comma-separated fields and the header
  row has nine.
\<close>

theorem data_row_fields_counterexample:
  "files (snd (main comma_env ''activity.tcx'' ''out.csv'' empty_world)) ''out.csv'' =
     Some (''Time,LatitudeDegrees,LongitudeDegrees,AltitudeMeters,HRBpm,Cadence,Speed,Watts,Grade''
           @ [CHR 0x0A] @ ''New Lap'' @ [CHR 0x0A] @ ''New Track'' @ [CHR 0x0A]
           @ ''2024-01-01T00:00:00Z,,,12,5,,,,,'' @ [CHR 0x0A])
   \<and> length (split (CHR '','') ''2024-01-01T00:00:00Z,,,12,5,,,,,'') = 10
   \<and> length (split (CHR '','')
         ''Time,LatitudeDegrees,LongitudeDegrees,AltitudeMeters,HRBpm,Cadence,Speed,Watts,Grade'') = 9"
  by (simp add: main_def main_try_def comma_env_def comma_document_def comma_trackpoint_def
      empty_world_def re_match_namespace_def find_py_def tag_selects_def write_csv_def
      fout_write_def headers_attributes extract_trackpoint_data_def extract_attribute_def
      attributes_def get_element_text_def namespace_any_def strip_def py_isspace_def
      print_py_def)


text \<open>
  C1, amended. For every trackpoint the extraction returns exactly nine values, one for
  each leaf of the field map, as many as there are column names, whatever sub-elements the
  trackpoint has; the data row is these values joined by commas. When none of the values
  contains a comma, the row has as many comma-separated fields as the header row.
\<close>

theorem data_row_fields:
  "\<exists>data. extract_trackpoint_data (Some trackpoint) None = Inr data
     \<and> length data = 9 \<and> length (extract_headers attributes []) = 9
     \<and> ((\<forall>v\<in>set data. CHR '','' \<notin> set v) \<longrightarrow>
          length (split (CHR '','') (join '','' data))
            = length (split (CHR '','') (join '','' (extract_headers attributes []))))"
proof -
  obtain data where d: "extract_trackpoint_data (Some trackpoint) None = Inr data"
    "length data = 9"
    using extract_trackpoint_data_total by blast
  have h: "length (split (CHR '','') (join '','' (extract_headers attributes []))) = 9"
    by (simp add: headers_attributes)
  have "length (split (CHR '','') (join '','' data)) = 9"
    if "\<forall>v\<in>set data. CHR '','' \<notin> set v"
  proof -
    from d(2) have "data \<noteq> []" by auto
    from split_join [OF this that] show ?thesis using d(2) by simp
  qed
  with d h show ?thesis by (simp add: headers_attributes)
qed


theorem data_row_fields_witness:
  "list_all (\<lambda>v. CHR '','' \<notin> set v)
     [''2024-01-01T00:00:00Z'', ''1.5'', ''2.5'', [], ''150'', [], [], [], []]
   \<and> extract_trackpoint_data (Some trackpoint_a) None
       = Inr [''2024-01-01T00:00:00Z'', ''1.5'', ''2.5'', [], ''150'', [], [], [], []]
   \<and> length (split (CHR '','')
         (join '','' [''2024-01-01T00:00:00Z'', ''1.5'', ''2.5'', [], ''150'', [], [], [], []]))
       = length (split (CHR '','') (join '','' (extract_headers attributes [])))"
proof -
  have d: "extract_trackpoint_data (Some trackpoint_a) None
       = Inr [''2024-01-01T00:00:00Z'', ''1.5'', ''2.5'', [], ''150'', [], [], [], []]"
    by (simp add: trackpoint_a_def example_ns_def extract_trackpoint_data_def
        extract_attribute_def attributes_def get_element_text_def find_py_def
        namespace_any_def tag_selects_def strip_def py_isspace_def)
  have c: "\<forall>v\<in>set [''2024-01-01T00:00:00Z'', ''1.5'', ''2.5'', [], ''150'', [], [], [], []].
      CHR '','' \<notin> set v"
    by simp
  from data_row_fields [of trackpoint_a] d c show ?thesis by (auto simp: list_all_iff)
qed


text \<open>
  C2, as stated, fails: the row the spec gives ends with five commas after \<^verbatim>\<open>150\<close>,
  which makes ten fields; the row emitted for this trackpoint has nine.
\<close>

theorem example_row_counterexample:
  "map_sum id (join '','') (extract_trackpoint_data (Some trackpoint_a) None)
     \<noteq> Inr ''2024-01-01T00:00:00Z,1.5,2.5,,150,,,,,''"
  by (simp add: trackpoint_a_def example_ns_def extract_trackpoint_data_def
        extract_attribute_def attributes_def get_element_text_def find_py_def
        namespace_any_def tag_selects_def strip_def py_isspace_def)


text \<open>
  C2, amended. For a trackpoint whose children are \<^verbatim>\<open>Time\<close> with text
  \<^verbatim>\<open>2024-01-01T00:00:00Z\<close>, \<^verbatim>\<open>Position\<close> with \<^verbatim>\<open>LatitudeDegrees\<close> 1.5 and
  \<^verbatim>\<open>LongitudeDegrees\<close> 2.5, and \<^verbatim>\<open>HeartRateBpm\<close> with \<^verbatim>\<open>Value\<close> 150, all under one
  namespace or under none, the emitted row is exactly
  \<^verbatim>\<open>2024-01-01T00:00:00Z,1.5,2.5,,150,,,,\<close>: nine fields, with empty cells for
  AltitudeMeters, Cadence, Speed, Watts and Grade.
\<close>

theorem example_row:
  assumes "ns = [] \<or> last ns = CHR ''}''"
    and "trackpoint = Element tag text
      [Element (ns @ ''Time'') (Some ''2024-01-01T00:00:00Z'') [],
       Element (ns @ ''Position'') text_p
         [Element (ns @ ''LatitudeDegrees'') (Some ''1.5'') [],
          Element (ns @ ''LongitudeDegrees'') (Some ''2.5'') []],
       Element (ns @ ''HeartRateBpm'') text_h
         [Element (ns @ ''Value'') (Some ''150'') []]]"
  shows "map_sum id (join '','') (extract_trackpoint_data (Some trackpoint) None)
     = Inr ''2024-01-01T00:00:00Z,1.5,2.5,,150,,,,''"
  using assms(2)
  by (simp add: extract_trackpoint_data_def extract_attribute_def attributes_def
      get_element_text_def find_py_def namespace_any_def tag_selects_any [OF assms(1)]
      strip_def py_isspace_def)
theorem example_row_witness:
  "(example_ns = [] \<or> last example_ns = CHR ''}'')
   \<and> trackpoint_a = Element (example_ns @ ''Trackpoint'') None
      [Element (example_ns @ ''Time'') (Some ''2024-01-01T00:00:00Z'') [],
       Element (example_ns @ ''Position'') None
         [Element (example_ns @ ''LatitudeDegrees'') (Some ''1.5'') [],
          Element (example_ns @ ''LongitudeDegrees'') (Some ''2.5'') []],
       Element (example_ns @ ''HeartRateBpm'') None
         [Element (example_ns @ ''Value'') (Some ''150'') []]]
   \<and> map_sum id (join '','') (extract_trackpoint_data (Some trackpoint_a) None)
     = Inr ''2024-01-01T00:00:00Z,1.5,2.5,,150,,,,''"
proof -
  have h1: "example_ns = [] \<or> last example_ns = CHR ''}''"
    by (simp add: example_ns_def)
  have h2: "trackpoint_a = Element (example_ns @ ''Trackpoint'') None
      [Element (example_ns @ ''Time'') (Some ''2024-01-01T00:00:00Z'') [],
       Element (example_ns @ ''Position'') None
         [Element (example_ns @ ''LatitudeDegrees'') (Some ''1.5'') [],
          Element (example_ns @ ''LongitudeDegrees'') (Some ''2.5'') []],
       Element (example_ns @ ''HeartRateBpm'') None
         [Element (example_ns @ ''Value'') (Some ''150'') []]]"
    by (simp add: trackpoint_a_def)
  from example_row [OF h1 h2] h1 h2 show ?thesis by blast
qed


text \<open>
  C3. Extraction never raises and always returns a complete row of nine cells. Under
  \<^verbatim>\<open>None\<close> every leaf of a field map yields the empty string. At an interior node the
  row is the cells of the keys before it, the cells of the node, and the cells of the keys
  after it; the cells of the node are computed from the child found for it alone, and when
  that child is absent they are all empty, while the cells before and after are what the
  extraction yields for those keys on the same element. Taking the child of an interior
  node away from an element (the keys beside it being other keys, as in \<open>attributes\<close>)
  empties the cells of the node and leaves every other cell of the row as it was.
\<close>

theorem absent_subtree_cells:
  "(\<exists>row. extract_trackpoint_data trackpoint None = Inr row \<and> length row = 9)
   \<and> extract_attribute None sub = Inr (replicate (length (extract_headers sub [])) [])
   \<and> (\<exists>a s b. extract_attribute element pre = Inr a
          \<and> extract_attribute (child_for element key) sub = Inr s
          \<and> extract_attribute element post = Inr b
          \<and> extract_attribute element (pre @ (key, Nested sub) # post) = Inr (a @ s @ b)
          \<and> length s = length (extract_headers sub [])
          \<and> (child_for element key = None \<longrightarrow>
                s = replicate (length (extract_headers sub [])) []))
   \<and> (CHR ''}'' \<notin> set key
        \<and> (\<forall>k\<in>fst ` set (pre @ post). k \<noteq> key \<and> CHR ''}'' \<notin> set k) \<longrightarrow>
        (\<exists>a s b. extract_attribute (Some e) (pre @ (key, Nested sub) # post)
                    = Inr (a @ s @ b)
           \<and> length a = length (extract_headers pre [])
           \<and> length s = length (extract_headers sub [])
           \<and> extract_attribute (Some (without_child key e))
                (pre @ (key, Nested sub) # post)
               = Inr (a @ replicate (length s) [] @ b)))"
proof -
  obtain a where a: "\<And>rs. extract_items element pre rs = Inr (rs @ a)"
    using extract_items_total [of element pre] by blast
  obtain s where s: "\<And>rs. extract_items (child_for element key) sub rs = Inr (rs @ s)"
    "length s = length (extract_headers sub [])"
    using extract_items_total [of "child_for element key" sub] by blast
  obtain b where b: "\<And>rs. extract_items element post rs = Inr (rs @ b)"
    using extract_items_total [of element post] by blast
  have node: "extract_items element ((key, Nested sub) # post) [] = Inr (s @ b)"
    using s(1) [of "[]"] b [of s]
    by (simp add: extract_items_Nested child_for_def del: extract_items.simps)
  have whole: "extract_items element (pre @ (key, Nested sub) # post) [] = Inr (a @ s @ b)"
    using extract_items_append [OF _ node, of pre a "[]"] a [of "[]"] by simp
  have blank: "s = replicate (length (extract_headers sub [])) []"
    if "child_for element key = None"
    using s(1) [of "[]"] that by (simp add: extract_items_None)
  have c123: "(\<exists>row. extract_trackpoint_data trackpoint None = Inr row \<and> length row = 9)
   \<and> extract_attribute None sub = Inr (replicate (length (extract_headers sub [])) [])
   \<and> (\<exists>a s b. extract_attribute element pre = Inr a
          \<and> extract_attribute (child_for element key) sub = Inr s
          \<and> extract_attribute element post = Inr b
          \<and> extract_attribute element (pre @ (key, Nested sub) # post) = Inr (a @ s @ b)
          \<and> length s = length (extract_headers sub [])
          \<and> (child_for element key = None \<longrightarrow>
                s = replicate (length (extract_headers sub [])) []))"
    using extract_trackpoint_data_total [of trackpoint] a [of "[]"] s b [of "[]"] whole blank
    by (simp add: extract_attribute_def extract_items_None)
  have c4: "\<exists>a s b. extract_attribute (Some e) (pre @ (key, Nested sub) # post)
                    = Inr (a @ s @ b)
           \<and> length a = length (extract_headers pre [])
           \<and> length s = length (extract_headers sub [])
           \<and> extract_attribute (Some (without_child key e))
                (pre @ (key, Nested sub) # post)
               = Inr (a @ replicate (length s) [] @ b)"
    if "CHR ''}'' \<notin> set key"
      and "\<forall>k\<in>fst ` set (pre @ post). k \<noteq> key \<and> CHR ''}'' \<notin> set k"
    using that by (rule removal_blanks_node)
  from c123 c4 show ?thesis by blast
qed

theorem absent_subtree_cells_witness:
  "child_for (Some trackpoint_c) ''Position'' = None
   \<and> (\<exists>a b. extract_attribute (Some trackpoint_c) [(''Time'', Leaf ''Time'')] = Inr a
         \<and> extract_attribute (Some trackpoint_c)
              ((''Time'', Leaf ''Time'')
               # (''Position'', Nested [(''LatitudeDegrees'', Leaf ''LatitudeDegrees''),
                                       (''LongitudeDegrees'', Leaf ''LongitudeDegrees'')])
               # [(''AltitudeMeters'', Leaf ''AltitudeMeters'')])
            = Inr (a @ [[], []] @ b))
   \<and> (\<exists>a s b. extract_attribute (Some trackpoint_a)
              ((''Time'', Leaf ''Time'')
               # (''Position'', Nested [(''LatitudeDegrees'', Leaf ''LatitudeDegrees''),
                                       (''LongitudeDegrees'', Leaf ''LongitudeDegrees'')])
               # [(''AltitudeMeters'', Leaf ''AltitudeMeters'')])
            = Inr (a @ s @ b)
         \<and> length a = 1 \<and> length s = 2
         \<and> extract_attribute (Some (without_child ''Position'' trackpoint_a))
              ((''Time'', Leaf ''Time'')
               # (''Position'', Nested [(''LatitudeDegrees'', Leaf ''LatitudeDegrees''),
                                       (''LongitudeDegrees'', Leaf ''LongitudeDegrees'')])
               # [(''AltitudeMeters'', Leaf ''AltitudeMeters'')])
            = Inr (a @ [[], []] @ b))"
proof -
  let ?sub = "[(''LatitudeDegrees'', Leaf ''LatitudeDegrees''),
      (''LongitudeDegrees'', Leaf ''LongitudeDegrees'')]"
  let ?pre = "[(''Time'', Leaf ''Time'')]"
  let ?post = "[(''AltitudeMeters'', Leaf ''AltitudeMeters'')]"
  have h: "child_for (Some trackpoint_c) ''Position'' = None"
    by (simp add: child_for_def trackpoint_c_def example_ns_def find_py_def tag_selects_def
        namespace_any_def)
  have k: "CHR ''}'' \<notin> set ''Position''
      \<and> (\<forall>k\<in>fst ` set (?pre @ ?post). k \<noteq> ''Position'' \<and> CHR ''}'' \<notin> set k)"
    by simp
  note t = absent_subtree_cells [where sub = ?sub and element = "Some trackpoint_c"
      and pre = ?pre and key = "''Position''" and post = ?post and trackpoint = None
      and e = trackpoint_a]
  have first: "\<exists>a b. extract_attribute (Some trackpoint_c) ?pre = Inr a
         \<and> extract_attribute (Some trackpoint_c) (?pre @ (''Position'', Nested ?sub) # ?post)
            = Inr (a @ [[], []] @ b)"
    using t h by auto
  from t k obtain a s b where
    r: "extract_attribute (Some trackpoint_a) (?pre @ (''Position'', Nested ?sub) # ?post)
          = Inr (a @ s @ b)"
      "length a = length (extract_headers ?pre [])"
      "length s = length (extract_headers ?sub [])"
      "extract_attribute (Some (without_child ''Position'' trackpoint_a))
          (?pre @ (''Position'', Nested ?sub) # ?post) = Inr (a @ replicate (length s) [] @ b)"
    by blast
  from r(2,3) have l: "length a = 1" "length s = 2" by simp_all
  from r(4) l(2) have "extract_attribute (Some (without_child ''Position'' trackpoint_a))
          (?pre @ (''Position'', Nested ?sub) # ?post) = Inr (a @ [[], []] @ b)"
    by (simp add: numeral_2_eq_2)
  with r(1) l have second: "\<exists>a s b.
      extract_attribute (Some trackpoint_a) (?pre @ (''Position'', Nested ?sub) # ?post)
            = Inr (a @ s @ b)
         \<and> length a = 1 \<and> length s = 2
         \<and> extract_attribute (Some (without_child ''Position'' trackpoint_a))
              (?pre @ (''Position'', Nested ?sub) # ?post) = Inr (a @ [[], []] @ b)"
    by blast
  from h first second show ?thesis by simp
qed

text \<open>
  C4. In every run that reaches the write phase (the document parses and passes the three
  checks, the output file opens and the write of the header line does not fail) the output
  file starts with the line
  \<^verbatim>\<open>Time,LatitudeDegrees,LongitudeDegrees,AltitudeMeters,HRBpm,Cadence,Speed,Watts,Grade\<close>
  followed by a line feed: the nine column names in this order, one comma between two of
  them and nothing else.
\<close>

theorem header_first_line:
  assumes "et_parse env input_file = Inr root"
    and "write_phase_activity root = Some activity"
    and "fopen_w env output_file = None"
    and "fwrite env (join '','' (extract_headers attributes []) @ [CHR 0x0A]) = None"
  shows "\<exists>rest. files (snd (main env input_file output_file w)) output_file =
     Some (''Time,LatitudeDegrees,LongitudeDegrees,AltitudeMeters,HRBpm,Cadence,Speed,Watts,Grade''
           @ [CHR 0x0A] @ rest)"
proof -
  obtain rest where rest:
    "snd (write_csv env (root_namespace root) activity (extract_headers attributes []))
       = join '','' (extract_headers attributes []) @ [CHR 0x0A] @ rest"
    using write_csv_header [OF assms(4)] by blast
  have "files (snd (main env input_file output_file w)) output_file
      = Some (snd (write_csv env (root_namespace root) activity (extract_headers attributes [])))"
    by (simp add: main_files main_try_write_phase [OF assms(1-3)]
        split: prod.splits option.splits)
  then show ?thesis using rest by (simp only: header_line) blast
qed


theorem header_first_line_witness:
  "et_parse example_env ''activity.tcx'' = Inr example_document
   \<and> write_phase_activity example_document = Some example_activity
   \<and> fopen_w example_env ''out.csv'' = None
   \<and> fwrite example_env (join '','' (extract_headers attributes []) @ [CHR 0x0A]) = None
   \<and> (\<exists>rest. files (snd (main example_env ''activity.tcx'' ''out.csv'' empty_world))
                ''out.csv'' =
        Some (''Time,LatitudeDegrees,LongitudeDegrees,AltitudeMeters,HRBpm,Cadence,Speed,Watts,Grade''
              @ [CHR 0x0A] @ rest))"
proof -
  have h1: "et_parse example_env ''activity.tcx'' = Inr example_document"
    by (simp add: example_env_def)
  have h3: "fopen_w example_env ''out.csv'' = None"
    by (simp add: example_env_def)
  have h4: "fwrite example_env (join '','' (extract_headers attributes []) @ [CHR 0x0A]) = None"
    by (simp add: example_env_def)
  from header_first_line [OF h1 example_document_write_phase h3 h4, of empty_world]
  show ?thesis using h1 example_document_write_phase h3 h4 by blast
qed

text \<open>
  C5, as stated, fails: a value is written as it is, so a value that holds a line feed
  breaks its row into two lines. The document below has two laps, one track in each and
  two trackpoints in each track, and the output file has ten lines.
\<close>

theorem two_laps_nine_lines_counterexample:
  "elements_tagged ''Lap'' linefeed_activity
     = [Element ''Lap'' None [linefeed_track_1], Element ''Lap'' None [linefeed_track_2]]
   \<and> elements_tagged ''Track'' (Element ''Lap'' None [linefeed_track_1]) = [linefeed_track_1]
   \<and> elements_tagged ''Track'' (Element ''Lap'' None [linefeed_track_2]) = [linefeed_track_2]
   \<and> length (elements_tagged ''Trackpoint'' linefeed_track_1) = 2
   \<and> length (elements_tagged ''Trackpoint'' linefeed_track_2) = 2
   \<and> file_lines (the (files (snd (main linefeed_env ''activity.tcx'' ''out.csv'' empty_world))
                         ''out.csv'')) =
       [''Time,LatitudeDegrees,LongitudeDegrees,AltitudeMeters,HRBpm,Cadence,Speed,Watts,Grade'',
        ''New Lap'', ''New Track'', ''a'', ''b,,,,,,,,'', ''t2,,,,,,,,'',
        ''New Lap'', ''New Track'', ''t3,,,,,,,,'', ''t4,,,,,,,,'']"
  by (simp add: main_def main_try_def linefeed_env_def linefeed_document_def
      linefeed_activity_def linefeed_track_1_def linefeed_track_2_def empty_world_def
      re_match_namespace_def write_csv_def fout_write_def headers_attributes
      elements_tagged_def file_lines_def eval_defs)

text \<open>
  C5, amended. Take a run without failure on a document in which the elements under the
  activity tagged Lap (in the namespace of the root) are two, each has one element tagged
  Track under it, and each track has two elements tagged Trackpoint under it. The output
  file is exactly: the header line, \<^verbatim>\<open>New Lap\<close>, \<^verbatim>\<open>New Track\<close>, the rows of the first two
  trackpoints, \<^verbatim>\<open>New Lap\<close>, \<^verbatim>\<open>New Track\<close>, the rows of the other two, each followed by a
  line feed. When no row holds a line feed these are exactly nine lines, in this order.
\<close>

theorem two_laps_nine_lines:
  assumes "et_parse env input_file = Inr root"
    and "write_phase_activity root = Some activity"
    and "fopen_w env output_file = None"
    and "\<forall>s. fwrite env s = None"
    and "elements_tagged (root_namespace root @ ''Lap'') activity = [lap1, lap2]"
    and "elements_tagged (root_namespace root @ ''Track'') lap1 = [track1]"
    and "elements_tagged (root_namespace root @ ''Track'') lap2 = [track2]"
    and "elements_tagged (root_namespace root @ ''Trackpoint'') track1 = [tp1, tp2]"
    and "elements_tagged (root_namespace root @ ''Trackpoint'') track2 = [tp3, tp4]"
  shows "main env input_file output_file w =
     (None, w\<lparr>files := (files w)(output_file \<mapsto>
        ''Time,LatitudeDegrees,LongitudeDegrees,AltitudeMeters,HRBpm,Cadence,Speed,Watts,Grade''
        @ [CHR 0x0A] @ ''New Lap'' @ [CHR 0x0A] @ ''New Track'' @ [CHR 0x0A]
        @ data_row tp1 @ [CHR 0x0A] @ data_row tp2 @ [CHR 0x0A]
        @ ''New Lap'' @ [CHR 0x0A] @ ''New Track'' @ [CHR 0x0A]
        @ data_row tp3 @ [CHR 0x0A] @ data_row tp4 @ [CHR 0x0A])\<rparr>)
   \<and> ((\<forall>tp\<in>{tp1, tp2, tp3, tp4}. CHR 0x0A \<notin> set (data_row tp)) \<longrightarrow>
        file_lines (the (files (snd (main env input_file output_file w)) output_file)) =
          [''Time,LatitudeDegrees,LongitudeDegrees,AltitudeMeters,HRBpm,Cadence,Speed,Watts,Grade'',
           ''New Lap'', ''New Track'', data_row tp1, data_row tp2,
           ''New Lap'', ''New Track'', data_row tp3, data_row tp4])"
proof -
  let ?nl = "CHR 0x0A"
  let ?text = "''Time,LatitudeDegrees,LongitudeDegrees,AltitudeMeters,HRBpm,Cadence,Speed,Watts,Grade''
        @ [?nl] @ ''New Lap'' @ [?nl] @ ''New Track'' @ [?nl]
        @ data_row tp1 @ [?nl] @ data_row tp2 @ [?nl]
        @ ''New Lap'' @ [?nl] @ ''New Track'' @ [?nl]
        @ data_row tp3 @ [?nl] @ data_row tp4 @ [?nl]"
  have ct: "csv_text (root_namespace root) activity = ?text"
    using assms(5-9) by (simp add: csv_text_def lap_text_def track_text_def)
  have m: "main env input_file output_file w =
     (None, w\<lparr>files := (files w)(output_file \<mapsto> ?text)\<rparr>)"
    using main_writes_csv_text [OF assms(1-4), of w] ct by simp
  have l: "file_lines ?text =
          [''Time,LatitudeDegrees,LongitudeDegrees,AltitudeMeters,HRBpm,Cadence,Speed,Watts,Grade'',
           ''New Lap'', ''New Track'', data_row tp1, data_row tp2,
           ''New Lap'', ''New Track'', data_row tp3, data_row tp4]"
    if "\<forall>tp\<in>{tp1, tp2, tp3, tp4}. ?nl \<notin> set (data_row tp)"
  proof -
    from that have n: "?nl \<notin> set (data_row tp1)" "?nl \<notin> set (data_row tp2)"
      "?nl \<notin> set (data_row tp3)" "?nl \<notin> set (data_row tp4)" by simp_all
    have "split ?nl (data_row tp4 @ [?nl]) = [data_row tp4, []]"
      using split_append_sep [OF n(4), of "[]"] by simp
    then have "split ?nl (data_row tp3 @ ?nl # data_row tp4 @ [?nl])
        = [data_row tp3, data_row tp4, []]"
      using split_append_sep [OF n(3), of "data_row tp4 @ [?nl]"] by simp
    then have a: "split ?nl (''New Lap'' @ ?nl # ''New Track'' @ ?nl # data_row tp3
          @ ?nl # data_row tp4 @ [?nl])
        = [''New Lap'', ''New Track'', data_row tp3, data_row tp4, []]"
      by simp
    have "split ?nl (data_row tp2 @ ?nl # ''New Lap'' @ ?nl # ''New Track'' @ ?nl # data_row tp3
          @ ?nl # data_row tp4 @ [?nl])
        = [data_row tp2, ''New Lap'', ''New Track'', data_row tp3, data_row tp4, []]"
      using split_append_sep [OF n(2)] a by simp
    then have "split ?nl (data_row tp1 @ ?nl # data_row tp2 @ ?nl # ''New Lap'' @ ?nl
          # ''New Track'' @ ?nl # data_row tp3 @ ?nl # data_row tp4 @ [?nl])
        = [data_row tp1, data_row tp2, ''New Lap'', ''New Track'', data_row tp3,
           data_row tp4, []]"
      using split_append_sep [OF n(1)] by simp
    then show ?thesis by (simp add: file_lines_def)
  qed
  show ?thesis using m l by simp
qed

theorem two_laps_nine_lines_witness:
  "et_parse example_env ''activity.tcx'' = Inr example_document
   \<and> write_phase_activity example_document = Some example_activity
   \<and> fopen_w example_env ''out.csv'' = None
   \<and> (\<forall>s. fwrite example_env s = None)
   \<and> elements_tagged (root_namespace example_document @ ''Lap'') example_activity
       = [lap_1, lap_2]
   \<and> elements_tagged (root_namespace example_document @ ''Track'') lap_1
       = [Element (example_ns @ ''Track'') None [trackpoint_a, trackpoint_b]]
   \<and> elements_tagged (root_namespace example_document @ ''Track'') lap_2
       = [Element (example_ns @ ''Track'') None [trackpoint_c, trackpoint_d]]
   \<and> elements_tagged (root_namespace example_document @ ''Trackpoint'')
         (Element (example_ns @ ''Track'') None [trackpoint_a, trackpoint_b])
       = [trackpoint_a, trackpoint_b]
   \<and> elements_tagged (root_namespace example_document @ ''Trackpoint'')
         (Element (example_ns @ ''Track'') None [trackpoint_c, trackpoint_d])
       = [trackpoint_c, trackpoint_d]
   \<and> CHR 0x0A \<notin> set (data_row trackpoint_a) \<and> CHR 0x0A \<notin> set (data_row trackpoint_b)
   \<and> CHR 0x0A \<notin> set (data_row trackpoint_c) \<and> CHR 0x0A \<notin> set (data_row trackpoint_d)
   \<and> file_lines (the (files (snd (main example_env ''activity.tcx'' ''out.csv'' empty_world))
                         ''out.csv'')) =
       [''Time,LatitudeDegrees,LongitudeDegrees,AltitudeMeters,HRBpm,Cadence,Speed,Watts,Grade'',
        ''New Lap'', ''New Track'',
        ''2024-01-01T00:00:00Z,1.5,2.5,,150,,,,'',
        ''2024-01-01T00:00:01Z,,,12.0,,80,3.1,200,'',
        ''New Lap'', ''New Track'',
        ''2024-01-01T00:00:02Z,,,,,,,,'',
        '',,,,,,,,'']"
proof -
  have ns: "root_namespace example_document = example_ns"
    by (simp add: root_namespace_def re_match_namespace_def example_document_def
        example_ns_def)
  have h1: "et_parse example_env ''activity.tcx'' = Inr example_document"
    by (simp add: example_env_def)
  have h3: "fopen_w example_env ''out.csv'' = None"
    by (simp add: example_env_def)
  have h4: "\<forall>s. fwrite example_env s = None"
    by (simp add: example_env_def)
  have h5: "elements_tagged (root_namespace example_document @ ''Lap'') example_activity
       = [lap_1, lap_2]"
    unfolding ns by (simp add: elements_tagged_def example_defs)
  have h6: "elements_tagged (root_namespace example_document @ ''Track'') lap_1
       = [Element (example_ns @ ''Track'') None [trackpoint_a, trackpoint_b]]"
    unfolding ns by (simp add: elements_tagged_def example_defs)
  have h7: "elements_tagged (root_namespace example_document @ ''Track'') lap_2
       = [Element (example_ns @ ''Track'') None [trackpoint_c, trackpoint_d]]"
    unfolding ns by (simp add: elements_tagged_def example_defs)
  have h8: "elements_tagged (root_namespace example_document @ ''Trackpoint'')
         (Element (example_ns @ ''Track'') None [trackpoint_a, trackpoint_b])
       = [trackpoint_a, trackpoint_b]"
    unfolding ns by (simp add: elements_tagged_def example_defs)
  have h9: "elements_tagged (root_namespace example_document @ ''Trackpoint'')
         (Element (example_ns @ ''Track'') None [trackpoint_c, trackpoint_d])
       = [trackpoint_c, trackpoint_d]"
    unfolding ns by (simp add: elements_tagged_def example_defs)
  have ra: "data_row trackpoint_a = ''2024-01-01T00:00:00Z,1.5,2.5,,150,,,,''"
    by (simp add: data_row_def example_defs eval_defs)
  have rb: "data_row trackpoint_b = ''2024-01-01T00:00:01Z,,,12.0,,80,3.1,200,''"
    by (simp add: data_row_def example_defs eval_defs)
  have rc: "data_row trackpoint_c = ''2024-01-01T00:00:02Z,,,,,,,,''"
    by (simp add: data_row_def example_defs eval_defs)
  have rd: "data_row trackpoint_d = '',,,,,,,,''"
    by (simp add: data_row_def example_defs eval_defs)
  have h10: "\<forall>tp\<in>{trackpoint_a, trackpoint_b, trackpoint_c, trackpoint_d}.
         CHR 0x0A \<notin> set (data_row tp)"
    by (simp add: ra rb rc rd)
  from two_laps_nine_lines [OF h1 example_document_write_phase h3 h4 h5 h6 h7 h8 h9,
      of empty_world] h10
  have "file_lines (the (files (snd (main example_env ''activity.tcx'' ''out.csv'' empty_world))
                         ''out.csv'')) =
       [''Time,LatitudeDegrees,LongitudeDegrees,AltitudeMeters,HRBpm,Cadence,Speed,Watts,Grade'',
           ''New Lap'', ''New Track'', data_row trackpoint_a, data_row trackpoint_b,
           ''New Lap'', ''New Track'', data_row trackpoint_c, data_row trackpoint_d]"
    by blast
  moreover have "CHR 0x0A \<notin> set (data_row trackpoint_a)"
    "CHR 0x0A \<notin> set (data_row trackpoint_b)"
    "CHR 0x0A \<notin> set (data_row trackpoint_c)"
    "CHR 0x0A \<notin> set (data_row trackpoint_d)"
    using h10 by simp_all
  ultimately show ?thesis
    using h1 example_document_write_phase h3 h4 h5 h6 h7 h8 h9
    by (simp only: ra rb rc rd simp_thms)
qed



text \<open>
  C7. On a structural mismatch (unexpected root tag, \<^verbatim>\<open>Activities\<close> absent or without
  children, \<^verbatim>\<open>Activity\<close> absent or without children) the files are exactly what they
  were: the output file is not created, and an existing file at the output path keeps its
  contents. The run is the same whatever opening or writing the output file would have
  done: it returns before the file is opened. When standard output takes every line,
  \<^verbatim>\<open>main\<close> returns normally after printing one of the three messages.
\<close>

theorem mismatch_leaves_files:
  assumes "et_parse env input_file = Inr root"
    and "write_phase_activity root = None"
  shows "files (snd (main env input_file output_file w)) = files w
     \<and> main (env\<lparr>fopen_w := opn, fwrite := wr\<rparr>) input_file output_file w
         = main env input_file output_file w
     \<and> ((\<forall>line. fprint env line = None) \<longrightarrow>
          fst (main env input_file output_file w) = None
          \<and> (\<exists>msg \<in> {''Unknown root found: '' @ elem_tag root,
                       ''Unable to find Activities under root'',
                       ''Unable to find Activity under Activities''}.
               stdout (snd (main env input_file output_file w)) = stdout w @ [msg]))"
proof -
  obtain msg where msg: "msg \<in> {''Unknown root found: '' @ elem_tag root,
                   ''Unable to find Activities under root'',
                   ''Unable to find Activity under Activities''}"
    "main_try env input_file output_file w = print_py env msg w"
    using main_try_mismatch [OF assms] by blast
  have c1: "files (snd (main env input_file output_file w)) = files w"
    by (simp add: main_files msg(2) print_py_files)
  have "main_try (env\<lparr>fopen_w := opn, fwrite := wr\<rparr>) input_file output_file w
      = main_try env input_file output_file w"
    by (rule main_try_mismatch_env [OF assms])
  then have c2: "main (env\<lparr>fopen_w := opn, fwrite := wr\<rparr>) input_file output_file w
      = main env input_file output_file w"
    by (simp add: main_def print_py_def split: prod.splits option.splits)
  have c3: "fst (main env input_file output_file w) = None
          \<and> (\<exists>msg \<in> {''Unknown root found: '' @ elem_tag root,
                       ''Unable to find Activities under root'',
                       ''Unable to find Activity under Activities''}.
               stdout (snd (main env input_file output_file w)) = stdout w @ [msg])"
    if "\<forall>line. fprint env line = None"
  proof -
    from that msg(2) have "main env input_file output_file w
        = (None, w\<lparr>stdout := stdout w @ [msg]\<rparr>)"
      by (simp add: main_def print_py_def)
    with msg(1) show ?thesis by auto
  qed
  from c1 c2 c3 show ?thesis by blast
qed

theorem mismatch_leaves_files_witness:
  "et_parse no_activity_env ''activity.tcx'' = Inr no_activity_document
   \<and> write_phase_activity no_activity_document = None
   \<and> (\<forall>line. fprint no_activity_env line = None)
   \<and> files (snd (main no_activity_env ''activity.tcx'' ''out.csv'' old_world))
       = [''out.csv'' \<mapsto> ''kept'']
   \<and> fst (main no_activity_env ''activity.tcx'' ''out.csv'' old_world) = None
   \<and> stdout (snd (main no_activity_env ''activity.tcx'' ''out.csv'' old_world))
       = [''Unable to find Activity under Activities'']"
proof -
  have h1: "et_parse no_activity_env ''activity.tcx'' = Inr no_activity_document"
    by (simp add: no_activity_env_def)
  have h2: "write_phase_activity no_activity_document = None"
    by (simp add: write_phase_activity_def root_namespace_def re_match_namespace_def
        no_activity_document_def example_ns_def find_py_def tag_selects_def)
  have h3: "\<forall>line. fprint no_activity_env line = None"
    by (simp add: no_activity_env_def)
  have s: "stdout (snd (main no_activity_env ''activity.tcx'' ''out.csv'' old_world))
       = [''Unable to find Activity under Activities'']"
    by (simp add: main_def main_try_def no_activity_env_def re_match_namespace_def
        no_activity_document_def example_ns_def find_py_def tag_selects_def print_py_def
        old_world_def)
  from mismatch_leaves_files [OF h1 h2, of "''out.csv''" old_world] h1 h2 h3 s
  show ?thesis by (simp add: old_world_def)
qed

text \<open>
  C8, as stated, fails: the \<^verbatim>\<open>print\<close> of the handler is outside the \<^verbatim>\<open>try\<close> statement.
  With a standard output that takes ASCII only and an input path that cannot be read and
  holds a letter outside ASCII, the message of the exception cannot be printed, and the
  \<^verbatim>\<open>UnicodeEncodeError\<close> of the handler's \<^verbatim>\<open>print\<close> leaves \<^verbatim>\<open>main\<close>; nothing is reported.
\<close>

theorem main_catches_exceptions_counterexample:
  "et_parse ascii_env (''caf'' @ [CHR 0xE9] @ ''.tcx'')
     = Inl (OSError (''No such file or directory: '' @ ''caf'' @ [CHR 0xE9] @ ''.tcx''))
   \<and> main ascii_env (''caf'' @ [CHR 0xE9] @ ''.tcx'') ''out.csv'' empty_world
     = (Some (UnicodeEncodeError ''ascii codec cannot encode character''), empty_world)"
  by (simp add: main_def main_try_def ascii_env_def ascii_only_def print_py_def)

text \<open>
  C8, amended. Every exception that leaves the body of the \<^verbatim>\<open>try\<close> statement (raised
  by parsing, by a method call on \<^verbatim>\<open>None\<close>, by opening or writing the output file, or by
  a \<^verbatim>\<open>print\<close> in the body) is caught by the one handler, which prints
  \<^verbatim>\<open>Error processing file: \<close> followed by its message. When this line can be printed,
  \<^verbatim>\<open>main\<close> returns normally: after a failure of parsing (malformed XML, unreadable input
  path) or of opening the output file (unwritable output path) the files are untouched,
  and after a failure of a write the output file holds what was written before. The only
  exception that can leave \<^verbatim>\<open>main\<close> is one raised by the \<^verbatim>\<open>print\<close> of the handler.
\<close>

theorem main_catches_exceptions:
  "(main_try env input_file output_file w = (Some x, w') \<longrightarrow>
        main env input_file output_file w
          = print_py env (''Error processing file: '' @ exn_str x) w')
   \<and> (main_try env input_file output_file w = (Some x, w')
        \<and> fprint env (''Error processing file: '' @ exn_str x) = None \<longrightarrow>
        main env input_file output_file w
          = (None, w'\<lparr>stdout := stdout w' @ [''Error processing file: '' @ exn_str x]\<rparr>))
   \<and> (et_parse env input_file = Inl x
        \<and> fprint env (''Error processing file: '' @ exn_str x) = None \<longrightarrow>
        main env input_file output_file w
          = (None, w\<lparr>stdout := stdout w @ [''Error processing file: '' @ exn_str x]\<rparr>))
   \<and> (et_parse env input_file = Inr root \<and> write_phase_activity root = Some activity
        \<and> fopen_w env output_file = Some x
        \<and> fprint env (''Error processing file: '' @ exn_str x) = None \<longrightarrow>
        main env input_file output_file w
          = (None, w\<lparr>stdout := stdout w @ [''Error processing file: '' @ exn_str x]\<rparr>))
   \<and> (et_parse env input_file = Inr root \<and> write_phase_activity root = Some activity
        \<and> fopen_w env output_file = None
        \<and> write_csv env (root_namespace root) activity (extract_headers attributes [])
            = (Some x, fout)
        \<and> fprint env (''Error processing file: '' @ exn_str x) = None \<longrightarrow>
        main env input_file output_file w
          = (None, w\<lparr>files := (files w)(output_file \<mapsto> fout),
                      stdout := stdout w @ [''Error processing file: '' @ exn_str x]\<rparr>))
   \<and> (fst (main env input_file output_file w) = Some y \<longrightarrow>
        (\<exists>z v. main_try env input_file output_file w = (Some z, v)
           \<and> fprint env (''Error processing file: '' @ exn_str z) = Some y))"
proof -
  have c1: "main env input_file output_file w
          = print_py env (''Error processing file: '' @ exn_str x) w'"
    if "main_try env input_file output_file w = (Some x, w')"
    using that by (rule main_handles)
  have c2: "main env input_file output_file w
          = (None, w'\<lparr>stdout := stdout w' @ [''Error processing file: '' @ exn_str x]\<rparr>)"
    if "main_try env input_file output_file w = (Some x, w')"
      and "fprint env (''Error processing file: '' @ exn_str x) = None"
    using that by (simp add: main_handles print_py_ok)
  have c3: "main env input_file output_file w
          = (None, w\<lparr>stdout := stdout w @ [''Error processing file: '' @ exn_str x]\<rparr>)"
    if "et_parse env input_file = Inl x"
      and "fprint env (''Error processing file: '' @ exn_str x) = None"
  proof -
    from that(1) have "main_try env input_file output_file w = (Some x, w)"
      by (simp add: main_try_def)
    with that(2) show ?thesis by (simp add: main_handles print_py_ok)
  qed
  have c4: "main env input_file output_file w
          = (None, w\<lparr>stdout := stdout w @ [''Error processing file: '' @ exn_str x]\<rparr>)"
    if "et_parse env input_file = Inr root" "write_phase_activity root = Some activity"
      "fopen_w env output_file = Some x"
      "fprint env (''Error processing file: '' @ exn_str x) = None"
  proof -
    have "main_try env input_file output_file w = (Some x, w)"
      using main_try_activity [OF that(1,2), of output_file w] that(3) by simp
    with that(4) show ?thesis by (simp add: main_handles print_py_ok)
  qed
  have c5: "main env input_file output_file w
          = (None, w\<lparr>files := (files w)(output_file \<mapsto> fout),
                      stdout := stdout w @ [''Error processing file: '' @ exn_str x]\<rparr>)"
    if "et_parse env input_file = Inr root" "write_phase_activity root = Some activity"
      "fopen_w env output_file = None"
      "write_csv env (root_namespace root) activity (extract_headers attributes [])
            = (Some x, fout)"
      "fprint env (''Error processing file: '' @ exn_str x) = None"
  proof -
    have "main_try env input_file output_file w
        = (Some x, w\<lparr>files := (files w)(output_file \<mapsto> fout)\<rparr>)"
      using main_try_write_phase [OF that(1-3), of w] that(4) by simp
    with that(5) show ?thesis by (simp add: main_handles print_py_ok)
  qed
  have c6: "\<exists>z v. main_try env input_file output_file w = (Some z, v)
           \<and> fprint env (''Error processing file: '' @ exn_str z) = Some y"
    if "fst (main env input_file output_file w) = Some y"
  proof (cases "main_try env input_file output_file w")
    case (Pair r v)
    show ?thesis
    proof (cases r)
      case None
      with Pair that show ?thesis by (simp add: main_def)
    next
      case (Some z)
      with Pair that have "fprint env (''Error processing file: '' @ exn_str z) = Some y"
        by (simp add: main_def print_py_def split: option.splits)
      with Pair Some show ?thesis by blast
    qed
  qed
  from c1 c2 c3 c4 c5 c6 show ?thesis by blast
qed

theorem main_catches_exceptions_witness:
  "et_parse failing_env ''broken.tcx'' = Inl (ParseError ''syntax error: line 1, column 0'')
   \<and> fprint failing_env (''Error processing file: '' @ ''syntax error: line 1, column 0'')
       = None
   \<and> main failing_env ''broken.tcx'' ''out.csv'' old_world
       = (None, \<lparr>files = [''out.csv'' \<mapsto> ''kept''],
                  stdout = [''Error processing file: syntax error: line 1, column 0'']\<rparr>)
   \<and> et_parse failing_env ''activity.tcx'' = Inr example_document
   \<and> write_phase_activity example_document = Some example_activity
   \<and> fopen_w failing_env ''out.csv'' = Some (OSError ''[Errno 13] Permission denied'')
   \<and> main failing_env ''activity.tcx'' ''out.csv'' old_world
       = (None, \<lparr>files = [''out.csv'' \<mapsto> ''kept''],
                  stdout = [''Error processing file: [Errno 13] Permission denied'']\<rparr>)"
proof -
  have h1: "et_parse failing_env ''broken.tcx''
      = Inl (ParseError ''syntax error: line 1, column 0'')"
    by (simp add: failing_env_def)
  have h2: "et_parse failing_env ''activity.tcx'' = Inr example_document"
    by (simp add: failing_env_def)
  have h3: "fopen_w failing_env ''out.csv'' = Some (OSError ''[Errno 13] Permission denied'')"
    by (simp add: failing_env_def)
  have h4: "fprint failing_env line = None" for line
    by (simp add: failing_env_def)
  from main_catches_exceptions [of failing_env "''broken.tcx''" "''out.csv''" old_world
      "ParseError ''syntax error: line 1, column 0''"] h1 h4
  have a: "main failing_env ''broken.tcx'' ''out.csv'' old_world
       = (None, \<lparr>files = [''out.csv'' \<mapsto> ''kept''],
                  stdout = [''Error processing file: syntax error: line 1, column 0'']\<rparr>)"
    by (simp add: old_world_def)
  from main_catches_exceptions [of failing_env "''activity.tcx''" "''out.csv''" old_world
      "OSError ''[Errno 13] Permission denied''" _ example_document example_activity]
    h2 h3 h4 example_document_write_phase
  have b: "main failing_env ''activity.tcx'' ''out.csv'' old_world
       = (None, \<lparr>files = [''out.csv'' \<mapsto> ''kept''],
                  stdout = [''Error processing file: [Errno 13] Permission denied'']\<rparr>)"
    by (simp add: old_world_def)
  from a b h1 h2 h3 h4 example_document_write_phase show ?thesis by simp
qed




text \<open>
  C10. The laps, tracks and trackpoints that \<^verbatim>\<open>main\<close> visits are exactly the elements, in
  document order, whose tag is equal to the namespace taken from the root tag followed by
  \<^verbatim>\<open>Lap\<close>, \<^verbatim>\<open>Track\<close> or \<^verbatim>\<open>Trackpoint\<close>: the file written is \<open>csv_text\<close>, which is built
  from these elements alone. An element with any other tag (another namespace, or none
  under a namespaced root) is not visited: when no element under the activity has the
  exact Lap tag only the header is written, a lap without an element of the exact Track
  tag gives its boundary line only, and so does a track without an element of the exact
  Trackpoint tag.
\<close>

theorem laps_tracks_trackpoints_by_exact_tag:
  assumes "et_parse env input_file = Inr root"
    and "write_phase_activity root = Some activity"
    and "fopen_w env output_file = None"
    and "\<forall>s. fwrite env s = None"
  shows "main env input_file output_file w =
     (None, w\<lparr>files := (files w)(output_file \<mapsto> csv_text (root_namespace root) activity)\<rparr>)
   \<and> iter_py (root_namespace root @ ''Lap'') activity
       = filter (\<lambda>x. elem_tag x = root_namespace root @ ''Lap'') (preorder activity)
   \<and> iter_py (root_namespace root @ ''Track'') lap
       = filter (\<lambda>x. elem_tag x = root_namespace root @ ''Track'') (preorder lap)
   \<and> iter_py (root_namespace root @ ''Trackpoint'') track
       = filter (\<lambda>x. elem_tag x = root_namespace root @ ''Trackpoint'') (preorder track)
   \<and> ((\<forall>x\<in>set (preorder activity). elem_tag x \<noteq> root_namespace root @ ''Lap'') \<longrightarrow>
        csv_text (root_namespace root) activity =
          ''Time,LatitudeDegrees,LongitudeDegrees,AltitudeMeters,HRBpm,Cadence,Speed,Watts,Grade''
          @ [CHR 0x0A])
   \<and> ((\<forall>x\<in>set (preorder lap). elem_tag x \<noteq> root_namespace root @ ''Track'') \<longrightarrow>
        lap_text (root_namespace root) lap = ''New Lap'' @ [CHR 0x0A])
   \<and> ((\<forall>x\<in>set (preorder track). elem_tag x \<noteq> root_namespace root @ ''Trackpoint'') \<longrightarrow>
        track_text (root_namespace root) track = ''New Track'' @ [CHR 0x0A])"
  using main_writes_csv_text [OF assms, of w]
  by (simp add: iter_py_tagged [unfolded elements_tagged_def] csv_text_def lap_text_def
      track_text_def elements_tagged_none)

theorem laps_tracks_trackpoints_by_exact_tag_witness:
  "main documents_env ''foreign_lap.tcx'' ''out.csv'' empty_world =
     (None, \<lparr>files = [''out.csv'' \<mapsto>
        ''Time,LatitudeDegrees,LongitudeDegrees,AltitudeMeters,HRBpm,Cadence,Speed,Watts,Grade''
        @ [CHR 0x0A]], stdout = []\<rparr>)
   \<and> main documents_env ''foreign_track.tcx'' ''out.csv'' empty_world =
     (None, \<lparr>files = [''out.csv'' \<mapsto>
        ''Time,LatitudeDegrees,LongitudeDegrees,AltitudeMeters,HRBpm,Cadence,Speed,Watts,Grade''
        @ [CHR 0x0A] @ ''New Lap'' @ [CHR 0x0A] @ ''New Track'' @ [CHR 0x0A]
        @ ''2024-01-01T00:00:01Z,,,12.0,,80,3.1,200,'' @ [CHR 0x0A]], stdout = []\<rparr>)"
proof -
  let ?act1 = "Element (example_ns @ ''Activity'') None
           [Element ''{urn:other}Lap'' None
              [Element (example_ns @ ''Track'') None [trackpoint_a]],
            Element ''Lap'' None
              [Element (example_ns @ ''Track'') None [trackpoint_c]]]"
  let ?act2 = "Element (example_ns @ ''Activity'') None
           [Element (example_ns @ ''Lap'') None
              [Element ''Track'' None [trackpoint_a],
               Element (example_ns @ ''Track'') None
                 [Element ''{urn:other}Trackpoint'' None
                    [Element ''{urn:other}Time'' (Some ''2024-01-01T00:00:09Z'') []],
                  trackpoint_b]]]"
  have p1: "et_parse documents_env ''foreign_lap.tcx'' = Inr foreign_lap_document"
    by (simp add: documents_env_def)
  have p2: "et_parse documents_env ''foreign_track.tcx'' = Inr foreign_track_document"
    by (simp add: documents_env_def)
  have n1: "root_namespace foreign_lap_document = example_ns"
    by (simp add: root_namespace_def re_match_namespace_def foreign_defs example_ns_def)
  have n2: "root_namespace foreign_track_document = example_ns"
    by (simp add: root_namespace_def re_match_namespace_def foreign_defs example_ns_def)
  have a1: "write_phase_activity foreign_lap_document = Some ?act1"
    unfolding write_phase_activity_def n1
    by (simp add: foreign_defs example_ns_def find_py_def tag_selects_def)
  have a2: "write_phase_activity foreign_track_document = Some ?act2"
    unfolding write_phase_activity_def n2
    by (simp add: foreign_defs example_ns_def find_py_def tag_selects_def)
  have o: "fopen_w documents_env ''out.csv'' = None" "\<forall>s. fwrite documents_env s = None"
    by (simp_all add: documents_env_def)
  have none: "\<forall>x\<in>set (preorder ?act1). elem_tag x \<noteq> root_namespace foreign_lap_document @ ''Lap''"
    unfolding n1 by (simp add: example_defs)
  have t2: "csv_text (root_namespace foreign_track_document) ?act2 =
        ''Time,LatitudeDegrees,LongitudeDegrees,AltitudeMeters,HRBpm,Cadence,Speed,Watts,Grade''
        @ [CHR 0x0A] @ ''New Lap'' @ [CHR 0x0A] @ ''New Track'' @ [CHR 0x0A]
        @ ''2024-01-01T00:00:01Z,,,12.0,,80,3.1,200,'' @ [CHR 0x0A]"
    unfolding n2
    by (simp add: csv_text_def lap_text_def track_text_def elements_tagged_def data_row_def
        example_defs eval_defs)
  from laps_tracks_trackpoints_by_exact_tag [OF p1 a1 o, of empty_world] none
  have m1: "main documents_env ''foreign_lap.tcx'' ''out.csv'' empty_world =
     (None, \<lparr>files = [''out.csv'' \<mapsto>
        ''Time,LatitudeDegrees,LongitudeDegrees,AltitudeMeters,HRBpm,Cadence,Speed,Watts,Grade''
        @ [CHR 0x0A]], stdout = []\<rparr>)"
    by (simp add: empty_world_def)
  from laps_tracks_trackpoints_by_exact_tag [OF p2 a2 o, of empty_world] t2
  have m2: "main documents_env ''foreign_track.tcx'' ''out.csv'' empty_world =
     (None, \<lparr>files = [''out.csv'' \<mapsto>
        ''Time,LatitudeDegrees,LongitudeDegrees,AltitudeMeters,HRBpm,Cadence,Speed,Watts,Grade''
        @ [CHR 0x0A] @ ''New Lap'' @ [CHR 0x0A] @ ''New Track'' @ [CHR 0x0A]
        @ ''2024-01-01T00:00:01Z,,,12.0,,80,3.1,200,'' @ [CHR 0x0A]], stdout = []\<rparr>)"
    by (simp add: empty_world_def)
  from m1 m2 show ?thesis by blast
qed

end
